theory Spec2Isabelle
  imports Main "HOL-Library.AList"
begin

section \<open>Python strings and paths\<close>

text \<open>
  The script runs under Python 2 (\<^verbatim>\<open>from __future__ import print_function\<close>, byte-string
  results of \<^verbatim>\<open>subprocess\<close> compared with \<^verbatim>\<open>str\<close> literals). Strings are modelled as
  \<^typ>\<open>string\<close>, one \<^typ>\<open>char\<close> per byte. \<^verbatim>\<open>str.split()\<close> and \<^verbatim>\<open>str.strip()\<close>
  without arguments work on the six ASCII whitespace characters.
\<close>

definition isspace :: "char \<Rightarrow> bool" where
  "isspace c = (c \<in> set [CHR '' '', CHR 0x09, CHR 0x0A, CHR 0x0B, CHR 0x0C, CHR 0x0D])"

definition strip :: "string \<Rightarrow> string" where
  "strip s = rev (dropWhile isspace (rev (dropWhile isspace s)))"

definition startswith :: "string \<Rightarrow> string \<Rightarrow> bool" where
  "startswith p s = (take (length p) s = p)"

definition endswith :: "string \<Rightarrow> string \<Rightarrow> bool" where
  "endswith suf s = (length suf \<le> length s \<and> drop (length s - length suf) s = suf)"

text \<open>\<^verbatim>\<open>s.split(c)\<close> for a one-character separator: always at least one part.\<close>

fun split_on :: "char \<Rightarrow> string \<Rightarrow> string list" where
  "split_on c [] = [[]]"
| "split_on c (x # xs) =
     (if x = c then [] # split_on c xs
      else (case split_on c xs of [] \<Rightarrow> [[x]] | p # ps \<Rightarrow> (x # p) # ps))"

text \<open>\<^verbatim>\<open>s.split()\<close>: the maximal runs of non-whitespace characters, in order.\<close>

fun split_ws_from :: "string \<Rightarrow> string \<Rightarrow> string list" where
  "split_ws_from cur [] = (if cur = [] then [] else [cur])"
| "split_ws_from cur (x # xs) =
     (if isspace x then (if cur = [] then [] else [cur]) @ split_ws_from [] xs
      else split_ws_from (cur @ [x]) xs)"

definition split_ws :: "string \<Rightarrow> string list" where
  "split_ws s = split_ws_from [] s"

text \<open>\<^verbatim>\<open>sep.join(xs)\<close>.\<close>

fun py_join :: "string \<Rightarrow> string list \<Rightarrow> string" where
  "py_join sep [] = []"
| "py_join sep [x] = x"
| "py_join sep (x # y # ys) = x @ sep @ py_join sep (y # ys)"

definition upper_char :: "char \<Rightarrow> char" where
  "upper_char c =
     (case map_of (zip ''abcdefghijklmnopqrstuvwxyz'' ''ABCDEFGHIJKLMNOPQRSTUVWXYZ'') c of
        Some u \<Rightarrow> u | None \<Rightarrow> c)"

definition lower_char :: "char \<Rightarrow> char" where
  "lower_char c =
     (case map_of (zip ''ABCDEFGHIJKLMNOPQRSTUVWXYZ'' ''abcdefghijklmnopqrstuvwxyz'') c of
        Some l \<Rightarrow> l | None \<Rightarrow> c)"

definition upper :: "string \<Rightarrow> string" where
  "upper s = map upper_char s"

definition lower :: "string \<Rightarrow> string" where
  "lower s = map lower_char s"

text \<open>Decimal text of an integer, as \<^verbatim>\<open>'{}'.format(n)\<close> prints it.\<close>

fun show_nat :: "nat \<Rightarrow> string" where
  "show_nat n =
     (if n < 10 then [''0123456789'' ! n]
      else show_nat (n div 10) @ [''0123456789'' ! (n mod 10)])"

declare show_nat.simps [simp del]

definition show_int :: "int \<Rightarrow> string" where
  "show_int i = (if i < 0 then ''-'' @ show_nat (nat (- i)) else show_nat (nat i))"

text \<open>\<^verbatim>\<open>os.path.join(a, b)\<close> on POSIX: an absolute second component replaces the first.\<close>

definition path_join :: "string \<Rightarrow> string \<Rightarrow> string" where
  "path_join a b =
     (if startswith ''/'' b then b
      else if a = [] \<or> endswith ''/'' a then a @ b
      else a @ ''/'' @ b)"

section \<open>The file system, the terminal and external programs\<close>

datatype node = File string | Dir

type_synonym filesys = "(string \<times> node) list"

definition isfile :: "filesys \<Rightarrow> string \<Rightarrow> bool" where
  "isfile f p = (case map_of f p of Some (File t) \<Rightarrow> True | _ \<Rightarrow> False)"

definition isdir :: "filesys \<Rightarrow> string \<Rightarrow> bool" where
  "isdir f p = (case map_of f p of Some Dir \<Rightarrow> True | _ \<Rightarrow> False)"

text \<open>The name of \<open>p\<close> inside directory \<open>d\<close>, when \<open>p\<close> is a direct child of \<open>d\<close>.\<close>

definition dir_prefix :: "string \<Rightarrow> string" where
  "dir_prefix d = (if endswith ''/'' d then d else d @ ''/'')"

definition child_name :: "string \<Rightarrow> string \<Rightarrow> string option" where
  "child_name d p =
     (let r = drop (length (dir_prefix d)) p
      in if startswith (dir_prefix d) p \<and> r \<noteq> [] \<and> CHR ''/'' \<notin> set r then Some r else None)"

definition children :: "filesys \<Rightarrow> string \<Rightarrow> string list" where
  "children f d = List.map_filter (\<lambda>e. child_name d (fst e)) f"

text \<open>Strictly below directory \<open>d\<close>, at any depth.\<close>

definition below :: "string \<Rightarrow> string \<Rightarrow> bool" where
  "below d p = (startswith (dir_prefix d) p \<and> length (dir_prefix d) < length p)"

datatype colour = CYAN | RED | GREEN | MAGENTA | PLAIN

text \<open>
  What the program does to the outside world, in order: lines printed (with the colorama
  colour put in front), programs run through \<^verbatim>\<open>subprocess.check_output\<close> (command line, exit
  status, captured output), commands run through the shell, and sleeps (seconds).
\<close>

datatype event =
    Print colour string
  | Exec string int string
  | Shell string int
  | Sleep nat

record world =
  fs :: filesys
  cwd :: string
  trace :: "event list"

datatype exn =
    CalledProcessError int
  | IOError
  | OSError
  | IndexError
  | KeyError
  | TypeError
  | ValueError
  | AttributeError
  | TemplateError

datatype json =
    JNull
  | JBool bool
  | JNum int
  | JStr string
  | JArr "json list"
  | JObj "(string \<times> json) list"

datatype envval = EStr string | EList "string list"

text \<open>
  The parts that are not code of this repository are parameters of the model:
  \<^item> \<open>install_dir\<close>: the directory of the script. \<^verbatim>\<open>os.path.realpath\<close> returns an absolute
    path, so \<open>FILE_DIR_PATH\<close> below puts the leading \<^verbatim>\<open>/\<close> in front of it;
  \<^item> \<open>shlex_split\<close>: \<^verbatim>\<open>shlex.split\<close>, \<open>None\<close> where it raises \<^verbatim>\<open>ValueError\<close> (a quotation that
    is not closed);
  \<^item> \<open>run\<close>: an external program (tar, docker, docker-compose) run on a command line in a
    world: its exit status, its output, and the file system it leaves. The programs are taken
    to be installed: \<^verbatim>\<open>OSError\<close> for a missing executable is not modelled;
  \<^item> \<open>json_loads\<close>: the JSON decoder, \<open>None\<close> where it raises \<^verbatim>\<open>ValueError\<close>;
  \<^item> \<open>render\<close>: \<^verbatim>\<open>jinja2.Template(text).render(env=data)\<close>;
  \<^item> \<open>dict_order\<close>: the order in which Python 2 iterates the items of a dict (an order of the
    interpreter's own, by hash).
  A command line is passed to \<open>run\<close> as the string the script builds; \<open>run\<close> stands for the
  program run on its tokens.
\<close>

record sys =
  install_dir :: string
  shlex_split :: "string \<Rightarrow> string list option"
  run :: "string \<Rightarrow> world \<Rightarrow> (int \<times> string) \<times> filesys"
  json_loads :: "string \<Rightarrow> json option"
  render :: "string \<Rightarrow> (string \<times> envval) list \<Rightarrow> exn + string"
  dict_order :: "(string \<times> envval) list \<Rightarrow> (string \<times> envval) list"

type_synonym 'a io = "world \<Rightarrow> (exn + 'a) \<times> world"

definition ret :: "'a \<Rightarrow> 'a io" where
  "ret x w = (Inr x, w)"

definition raise :: "exn \<Rightarrow> 'a io" where
  "raise e w = (Inl e, w)"

definition bnd :: "'a io \<Rightarrow> ('a \<Rightarrow> 'b io) \<Rightarrow> 'b io" where
  "bnd m f w = (case m w of (Inl e, w') \<Rightarrow> (Inl e, w') | (Inr x, w') \<Rightarrow> f x w')"

text \<open>\<^verbatim>\<open>try: m  except subprocess.CalledProcessError as exc: h(exc.returncode)\<close>\<close>

definition try_cpe :: "'a io \<Rightarrow> (int \<Rightarrow> 'a io) \<Rightarrow> 'a io" where
  "try_cpe m h w = (case m w of (Inl (CalledProcessError rc), w') \<Rightarrow> h rc w' | r \<Rightarrow> r)"

definition print :: "colour \<Rightarrow> string \<Rightarrow> unit io" where
  "print c s w = (Inr (), w\<lparr>trace := trace w @ [Print c s]\<rparr>)"

text \<open>The operating system resolves a relative path against the working directory.\<close>

definition resolve :: "world \<Rightarrow> string \<Rightarrow> string" where
  "resolve w p = path_join (cwd w) p"

definition os_isfile :: "string \<Rightarrow> bool io" where
  "os_isfile p w = (Inr (isfile (fs w) (resolve w p)), w)"

definition os_isdir :: "string \<Rightarrow> bool io" where
  "os_isdir p w = (Inr (isdir (fs w) (resolve w p)), w)"

definition getcwd :: "string io" where
  "getcwd w = (Inr (cwd w), w)"

definition chdir :: "string \<Rightarrow> unit io" where
  "chdir p w = (if isdir (fs w) (resolve w p) then (Inr (), w\<lparr>cwd := resolve w p\<rparr>) else (Inl OSError, w))"

definition listdir :: "string \<Rightarrow> string list io" where
  "listdir p w =
     (if isdir (fs w) (resolve w p) then (Inr (children (fs w) (resolve w p)), w) else (Inl OSError, w))"

text \<open>\<^verbatim>\<open>open(p, 'r').read()\<close>\<close>

definition read_file :: "string \<Rightarrow> string io" where
  "read_file p w = (case map_of (fs w) (resolve w p) of Some (File t) \<Rightarrow> (Inr t, w) | _ \<Rightarrow> (Inl IOError, w))"

text \<open>\<^verbatim>\<open>os.path.dirname\<close>\<close>

definition dirname :: "string \<Rightarrow> string" where
  "dirname p =
     (let head = rev (dropWhile (\<lambda>c. c \<noteq> CHR ''/'') (rev p))
      in if head = [] then head
         else if list_all (\<lambda>c. c = CHR ''/'') head then head
         else rev (dropWhile (\<lambda>c. c = CHR ''/'') (rev head)))"

text \<open>\<^verbatim>\<open>open(p, 'w').write(t)\<close>: the target must not be a directory and its directory must exist.\<close>

definition write_file :: "string \<Rightarrow> string \<Rightarrow> unit io" where
  "write_file p t w =
     (let q = resolve w p
      in if isdir (fs w) q then (Inl IOError, w)
         else if isdir (fs w) (dirname q) then (Inr (), w\<lparr>fs := AList.update q (File t) (fs w)\<rparr>)
         else (Inl IOError, w))"

text \<open>\<^verbatim>\<open>os.remove\<close>\<close>

definition os_remove :: "string \<Rightarrow> unit io" where
  "os_remove p w =
     (if isfile (fs w) (resolve w p) then (Inr (), w\<lparr>fs := AList.delete (resolve w p) (fs w)\<rparr>)
      else (Inl OSError, w))"

text \<open>\<^verbatim>\<open>shutil.rmtree\<close>: the directory and everything below it.\<close>

definition rmtree :: "string \<Rightarrow> unit io" where
  "rmtree p w =
     (let q = resolve w p
      in if isdir (fs w) q
         then (Inr (), w\<lparr>fs := filter (\<lambda>e. fst e \<noteq> q \<and> \<not> below q (fst e)) (fs w)\<rparr>)
         else (Inl OSError, w))"

text \<open>
  \<^verbatim>\<open>os.makedirs\<close>: creates the directory and its missing ancestors; raises when the path
  exists already or an ancestor is a regular file.
\<close>

definition ancestors :: "string \<Rightarrow> string list" where
  "ancestors p = map (\<lambda>i. take i p) (filter (\<lambda>i. p ! i = CHR ''/'') [1..<length p])"

definition makedirs :: "string \<Rightarrow> unit io" where
  "makedirs p w =
     (let q = resolve w p
      in if map_of (fs w) q \<noteq> None then (Inl OSError, w)
         else if list_ex (isfile (fs w)) (ancestors q) then (Inl OSError, w)
         else (Inr (), w\<lparr>fs := fs w @ map (\<lambda>a. (a, Dir)) (filter (\<lambda>a. map_of (fs w) a = None) (ancestors q))
                                   @ [(q, Dir)]\<rparr>))"

text \<open>\<^verbatim>\<open>time.sleep\<close>\<close>

definition sleep :: "nat \<Rightarrow> unit io" where
  "sleep n w = (Inr (), w\<lparr>trace := trace w @ [Sleep n]\<rparr>)"

section \<open>jfit.py\<close>

definition FILE_DIR_PATH :: "sys \<Rightarrow> string" where
  "FILE_DIR_PATH S = CHR ''/'' # install_dir S"

definition ETC_DIR_PATH :: "sys \<Rightarrow> string" where
  "ETC_DIR_PATH S = path_join (FILE_DIR_PATH S) ''etc''"

definition GROUP_DIR :: "sys \<Rightarrow> string" where
  "GROUP_DIR S = path_join (ETC_DIR_PATH S) ''core_output''"

definition COMPOSE_SNIPPET_DIR :: "sys \<Rightarrow> string" where
  "COMPOSE_SNIPPET_DIR S = path_join (FILE_DIR_PATH S) ''compose_files''"

definition GROUP_ENV_FILE :: string where
  "GROUP_ENV_FILE = ''source.env''"

definition SERVICE_KEYS :: "string list" where
  "SERVICE_KEYS = [''JTI_NATIVE_COLLECTOR'', ''JTI_OC_COLLECTOR'', ''RULE_ENGINE'',
                   ''TRAINING_ENGINE'', ''COMMAND_RPC'', ''DATABASE'']"

definition DOCKER_IMAGE_DIR :: "sys \<Rightarrow> string" where
  "DOCKER_IMAGE_DIR S = path_join (FILE_DIR_PATH S) ''docker_images''"

definition PARSE_INPUT_DIR :: "sys \<Rightarrow> string" where
  "PARSE_INPUT_DIR S = path_join (FILE_DIR_PATH S) ''input''"

text \<open>
  \<open>execute\<close>: tokenise the command line, print it, run it, and return its stripped output; a
  non-zero exit status prints the error in red and raises \<^verbatim>\<open>CalledProcessError\<close>.
\<close>

definition execute :: "sys \<Rightarrow> string \<Rightarrow> string io" where
  "execute S command_string w =
     (case shlex_split S command_string of
        None \<Rightarrow> (Inl ValueError, w)
      | Some args \<Rightarrow>
          (let w1 = w\<lparr>trace := trace w @ [Print CYAN command_string]\<rparr>;
               rc = fst (fst (run S command_string w1));
               out = snd (fst (run S command_string w1));
               w2 = w1\<lparr>fs := snd (run S command_string w1),
                       trace := trace w1 @ [Exec command_string rc out]\<rparr>
           in if rc \<noteq> 0
              then (Inl (CalledProcessError rc),
                    w2\<lparr>trace := trace w2 @
                       [Print RED (''Command '' @ command_string @ '' exited with code: '' @ show_int rc
                                   @ [CHR 0x0A] @ ''Error: '' @ out)]\<rparr>)
              else (Inr (strip out), w2)))"

text \<open>
  \<open>shell_command\<close>: \<^verbatim>\<open>subprocess.call(..., shell=True)\<close> returns the exit status and does not
  raise on a non-zero one.
\<close>

definition shell_command :: "sys \<Rightarrow> string \<Rightarrow> int io" where
  "shell_command S command_string w =
     (let w1 = w\<lparr>trace := trace w @ [Print CYAN command_string]\<rparr>;
          rc = fst (fst (run S command_string w1))
      in (Inr rc, w1\<lparr>fs := snd (run S command_string w1),
                      trace := trace w1 @ [Shell command_string rc]\<rparr>))"

definition get_group_dir_path :: "sys \<Rightarrow> string \<Rightarrow> string" where
  "get_group_dir_path S group_name = path_join (GROUP_DIR S) group_name"

text \<open>
  \<open>_get_compose_files\<close> returns either the integer 1 (after printing the error) or the
  argument string \<^verbatim>\<open>' -f a.yaml -f b.yaml'\<close>.
\<close>

datatype compose_files = NoComposeFiles | ComposeArgs string

definition no_compose_message :: string where
  "no_compose_message = ''Unable to find compose files.'' @ [CHR 0x0A] @ '' Please run parse command first!''"

definition get_compose_files :: "string \<Rightarrow> compose_files io" where
  "get_compose_files dir_path =
     bnd (listdir dir_path) (\<lambda>names.
       let yaml_files = filter (endswith ''.yaml'') names
       in if yaml_files = []
          then bnd (print RED no_compose_message) (\<lambda>u. ret NoComposeFiles)
          else ret (ComposeArgs (py_join '' -f '' ([] # yaml_files))))"

text \<open>\<^verbatim>\<open>'{}'.format(compose_files)\<close>: the integer 1 is formatted as \<^verbatim>\<open>1\<close>.\<close>

definition format_compose_files :: "compose_files \<Rightarrow> string" where
  "format_compose_files c = (case c of NoComposeFiles \<Rightarrow> ''1'' | ComposeArgs s \<Rightarrow> s)"

text \<open>
  The arguments of \<open>start\<close>, \<open>stop\<close>, \<open>restart\<close>, \<open>remove\<close> and \<open>cli\<close>. An optional
  \<^verbatim>\<open>--service\<close> that was not given is \<open>None\<close>; \<^verbatim>\<open>if args.service:\<close> is false for \<open>None\<close> and
  for the empty string.
\<close>

record group_args =
  args_group_name :: string
  args_service :: "string option"

definition truthy :: "string option \<Rightarrow> bool" where
  "truthy s = (case s of None \<Rightarrow> False | Some t \<Rightarrow> t \<noteq> [])"

definition format_opt :: "string option \<Rightarrow> string" where
  "format_opt s = (case s of None \<Rightarrow> ''None'' | Some t \<Rightarrow> t)"

definition start :: "sys \<Rightarrow> group_args \<Rightarrow> int io" where
  "start S args =
     (let group_dir_path = get_group_dir_path S (args_group_name args) in
      bnd (os_isdir group_dir_path) (\<lambda>valid.
      if \<not> valid then bnd (print RED ''Group name is not valid'') (\<lambda>u. ret 1)
      else
      bnd getcwd (\<lambda>cwd0.
      bnd (chdir group_dir_path) (\<lambda>u.
      bnd (get_compose_files group_dir_path) (\<lambda>compose_files.
      if compose_files = NoComposeFiles then ret 1
      else
      let compose_command = ''docker-compose -p '' @ args_group_name args;
          compose_command = compose_command @ '' '' @ format_compose_files compose_files;
          compose_command =
            (if truthy (args_service args) then compose_command @ '' start '' @ format_opt (args_service args)
             else compose_command @ '' up -d'')
      in
      bnd (try_cpe (bnd (execute S compose_command) (\<lambda>output. bnd (print PLAIN output) (\<lambda>u. ret 0)))
                   (\<lambda>rc. ret rc)) (\<lambda>ret_code.
      bnd (chdir cwd0) (\<lambda>u.
      bnd (if ret_code = 0 then print GREEN ''Success!'' else ret ()) (\<lambda>u.
      ret ret_code))))))))"

definition stop :: "sys \<Rightarrow> group_args \<Rightarrow> int io" where
  "stop S args =
     (let group_dir_path = get_group_dir_path S (args_group_name args) in
      bnd (os_isdir group_dir_path) (\<lambda>valid.
      if \<not> valid then bnd (print RED ''Group name is not valid'') (\<lambda>u. ret 1)
      else
      bnd getcwd (\<lambda>cwd0.
      bnd (chdir group_dir_path) (\<lambda>u.
      bnd (get_compose_files group_dir_path) (\<lambda>compose_files.
      if compose_files = NoComposeFiles then ret 1
      else
      let compose_command =
            ''docker-compose -p '' @ args_group_name args @ '' '' @ format_compose_files compose_files @ '' stop'';
          compose_command =
            (if truthy (args_service args) then compose_command @ '' '' @ format_opt (args_service args)
             else compose_command)
      in
      bnd (try_cpe (bnd (execute S compose_command) (\<lambda>output. bnd (print PLAIN output) (\<lambda>u. ret 0)))
                   (\<lambda>rc. ret rc)) (\<lambda>ret_code.
      bnd (chdir cwd0) (\<lambda>u.
      bnd (if ret_code = 0 then print GREEN ''Success!'' else ret ()) (\<lambda>u.
      ret ret_code))))))))"

definition restart :: "sys \<Rightarrow> group_args \<Rightarrow> int io" where
  "restart S args =
     (let group_dir_path = get_group_dir_path S (args_group_name args) in
      bnd (os_isdir group_dir_path) (\<lambda>valid.
      if \<not> valid then bnd (print RED ''Group name is not valid'') (\<lambda>u. ret 1)
      else
      bnd getcwd (\<lambda>cwd0.
      bnd (chdir group_dir_path) (\<lambda>u.
      bnd (get_compose_files group_dir_path) (\<lambda>compose_files.
      if compose_files = NoComposeFiles then ret 1
      else
      let compose_command =
            ''docker-compose -p '' @ args_group_name args @ '' '' @ format_compose_files compose_files @ '' restart'';
          compose_command =
            (if truthy (args_service args) then compose_command @ '' '' @ format_opt (args_service args)
             else compose_command)
      in
      bnd (try_cpe (bnd (execute S compose_command) (\<lambda>output. bnd (print PLAIN output) (\<lambda>u. ret 0)))
                   (\<lambda>rc. ret rc)) (\<lambda>ret_code.
      bnd (chdir cwd0) (\<lambda>u.
      bnd (if ret_code = 0 then print GREEN ''Success!'' else ret ()) (\<lambda>u.
      ret ret_code))))))))"

text \<open>\<open>cli\<close>: the service is a required positional argument.\<close>

definition cli :: "sys \<Rightarrow> group_args \<Rightarrow> int io" where
  "cli S args =
     (let group_dir_path = get_group_dir_path S (args_group_name args) in
      bnd (os_isdir group_dir_path) (\<lambda>valid.
      if \<not> valid then bnd (print RED ''Group name is not valid'') (\<lambda>u. ret 1)
      else
      bnd getcwd (\<lambda>cwd0.
      bnd (chdir group_dir_path) (\<lambda>u.
      bnd (get_compose_files group_dir_path) (\<lambda>compose_files.
      if compose_files = NoComposeFiles then ret 1
      else
      let compose_command =
            ''docker-compose -p '' @ args_group_name args @ '' '' @ format_compose_files compose_files
            @ '' exec '' @ format_opt (args_service args) @ '' sh''
      in
      bnd (try_cpe (shell_command S compose_command) (\<lambda>rc. ret rc)) (\<lambda>ret_code.
      bnd (chdir cwd0) (\<lambda>u.
      ret ret_code)))))))"

text \<open>
  \<open>remove\<close>: no check that the group directory exists (\<^verbatim>\<open>os.chdir\<close> raises), and the value
  of \<open>_get_compose_files\<close> is formatted into the command line without being compared with 1.
  The message carries the colour code of \<^verbatim>\<open>colorama.Fore.GREEN\<close> inside its text when a service
  is given.
\<close>

definition fore_green :: string where
  "fore_green = [CHR 0x1B] @ ''[32m''"

definition remove :: "sys \<Rightarrow> group_args \<Rightarrow> int io" where
  "remove S args =
     bnd getcwd (\<lambda>cwd0.
     let group_dir_path = get_group_dir_path S (args_group_name args) in
     bnd (chdir group_dir_path) (\<lambda>u.
     bnd (get_compose_files group_dir_path) (\<lambda>compose_files.
     let compose_command =
           ''docker-compose -p '' @ args_group_name args @ '' '' @ format_compose_files compose_files
           @ '' rm --force --stop -v'';
         message = ''Remove group '' @ args_group_name args;
         compose_command =
           (if truthy (args_service args) then compose_command @ '' '' @ format_opt (args_service args)
            else compose_command);
         message =
           (if truthy (args_service args)
            then fore_green @ ''Remove '' @ args_group_name args @ [CHR 0x27] @ ''s service '' @ format_opt (args_service args)
            else message)
     in
     bnd (try_cpe (bnd (execute S compose_command) (\<lambda>output. ret (0, GREEN, ''Success: '' @ message)))
                  (\<lambda>rc. ret (rc, RED, ''Failure: '' @ message))) (\<lambda>r.
     bnd (print (fst (snd r)) (snd (snd r))) (\<lambda>u.
     bnd (chdir cwd0) (\<lambda>u.
     ret (fst r)))))))"

subsection \<open>Image tags\<close>

text \<open>Python's \<^verbatim>\<open>x[0]\<close> and \<^verbatim>\<open>x['RepoTags']\<close> on a decoded JSON value.\<close>

definition py_index0 :: "json \<Rightarrow> exn + json" where
  "py_index0 j =
     (case j of
        JArr [] \<Rightarrow> Inl IndexError
      | JArr (x # xs) \<Rightarrow> Inr x
      | JStr [] \<Rightarrow> Inl IndexError
      | JStr (c # cs) \<Rightarrow> Inr (JStr [c])
      | JObj kvs \<Rightarrow> Inl KeyError
      | _ \<Rightarrow> Inl TypeError)"

definition py_getitem :: "string \<Rightarrow> json \<Rightarrow> exn + json" where
  "py_getitem k j =
     (case j of
        JObj kvs \<Rightarrow> (case map_of kvs k of None \<Rightarrow> Inl KeyError | Some v \<Rightarrow> Inr v)
      | _ \<Rightarrow> Inl TypeError)"

definition lift :: "exn + 'a \<Rightarrow> 'a io" where
  "lift r w = (r, w)"

definition json_load :: "sys \<Rightarrow> string \<Rightarrow> json io" where
  "json_load S p =
     bnd (read_file p) (\<lambda>text.
       case json_loads S text of None \<Rightarrow> raise ValueError | Some j \<Rightarrow> ret j)"

definition get_container_tags :: "sys \<Rightarrow> string \<Rightarrow> json io" where
  "get_container_tags S container_image_path =
     bnd getcwd (\<lambda>cwd0.
     bnd (chdir (FILE_DIR_PATH S)) (\<lambda>u.
     let image_manifest_file = ''manifest.json'';
         untar_command = ''tar -xf '' @ container_image_path @ '' '' @ image_manifest_file
     in
     bnd (execute S untar_command) (\<lambda>out.
     let image_manifest_file_path = path_join (FILE_DIR_PATH S) image_manifest_file in
     bnd (json_load S image_manifest_file) (\<lambda>j.
     bnd (lift (py_index0 j)) (\<lambda>j0.
     bnd (lift (py_getitem ''RepoTags'' j0)) (\<lambda>repo_tags.
     bnd (lift (py_index0 repo_tags)) (\<lambda>tags.
     bnd (os_remove image_manifest_file_path) (\<lambda>u.
     bnd (chdir cwd0) (\<lambda>u.
     ret tags)))))))))"

subsection \<open>Assembling a group\<close>

text \<open>
  The dict comprehension over the whitespace-separated tokens of the manifest:
  \<^verbatim>\<open>{line.split('=')[0]: line.split('=')[1] for line in content.split() if line.strip()}\<close>.
  A dict is an association list with one entry per key: a key assigned again takes the new
  value.
\<close>

fun env_dict_of :: "string list \<Rightarrow> (string \<times> string) list \<Rightarrow> exn + (string \<times> string) list" where
  "env_dict_of [] acc = Inr acc"
| "env_dict_of (line # rest) acc =
     (if strip line = [] then env_dict_of rest acc
      else (case split_on CHR ''='' line of
              k # v # others \<Rightarrow> env_dict_of rest (AList.update k v acc)
            | _ \<Rightarrow> Inl IndexError))"

text \<open>
  The loop over the keys: the value of a key ending in \<^verbatim>\<open>_LIST\<close> loses its first and last
  character (\<^verbatim>\<open>[1:-1]\<close>) and is split at the commas.
\<close>

definition parse_lists :: "(string \<times> string) list \<Rightarrow> (string \<times> envval) list" where
  "parse_lists d =
     map (\<lambda>kv. (fst kv, if endswith ''_LIST'' (fst kv)
                          then EList (split_on CHR '','' (butlast (tl (snd kv))))
                          else EStr (snd kv))) d"

text \<open>
  \<^verbatim>\<open>'{}'.format(v)\<close>: a string as it is; a list as Python prints it (exact for items without
  quotes or escapes; the script only formats the values of role keys, which are strings).
\<close>

definition format_envval :: "envval \<Rightarrow> string" where
  "format_envval v =
     (case v of
        EStr t \<Rightarrow> t
      | EList xs \<Rightarrow> ''['' @ py_join '', '' (map (\<lambda>x. [CHR 0x27] @ x @ [CHR 0x27]) xs) @ '']'')"

text \<open>
  The tag comes from the JSON decoder as a unicode string, whose \<^verbatim>\<open>strip()\<close> also removes
  the separators \<^verbatim>\<open>0x1C\<close> to \<^verbatim>\<open>0x1F\<close>.
\<close>

definition isuspace :: "char \<Rightarrow> bool" where
  "isuspace c = (isspace c \<or> c \<in> set [CHR 0x1C, CHR 0x1D, CHR 0x1E, CHR 0x1F])"

definition ustrip :: "string \<Rightarrow> string" where
  "ustrip s = rev (dropWhile isuspace (rev (dropWhile isuspace s)))"

text \<open>
  \<^verbatim>\<open>service_tag = service_tag.split(':')\<close>, \<^verbatim>\<open>service = service_tag[0].strip()\<close>,
  \<^verbatim>\<open>version = service_tag[1].strip()\<close>.
\<close>

definition split_tag :: "json \<Rightarrow> exn + string \<times> string" where
  "split_tag service_tag =
     (case service_tag of
        JStr t \<Rightarrow>
          (case split_on CHR '':'' t of
             n # v # others \<Rightarrow> Inr (ustrip n, ustrip v)
           | _ \<Rightarrow> Inl IndexError)
      | _ \<Rightarrow> Inl AttributeError)"

definition jinja_template_name :: "string \<Rightarrow> string" where
  "jinja_template_name service =
     (if service = ''TRAINING_ENGINE'' then service @ ''_training.yaml.j2'' else service @ ''.yaml.j2'')"

text \<open>
  One round of the loop over the roles, for a key that is in \<open>SERVICE_KEYS\<close>. The result is
  \<open>Some err\<close> where the script sets \<^verbatim>\<open>ret_code = 1\<close> and breaks, \<open>None\<close> when the document
  was written.
\<close>

definition process_role ::
  "sys \<Rightarrow> string \<Rightarrow> string \<Rightarrow> (string \<times> envval) list \<Rightarrow> string \<Rightarrow> envval \<Rightarrow> string option io" where
  "process_role S dir_path compose_snippet_loc env_dict service_type val =
     (let service_name = ''jfit_'' @ format_envval val;
          service_image_path = path_join (DOCKER_IMAGE_DIR S) (service_name @ ''.tar.gz'')
      in
      bnd (os_isfile service_image_path) (\<lambda>found.
      if \<not> found then ret (Some (''Unable to find docker image: '' @ service_image_path))
      else
      bnd (get_container_tags S service_image_path) (\<lambda>service_tag.
      if service_tag = JNull then ret (Some (''Unable to extract tags for service: '' @ service_name))
      else
      bnd (lift (split_tag service_tag)) (\<lambda>sv.
      let service = fst sv;
          version = snd sv;
          jinja_template = path_join compose_snippet_loc (jinja_template_name service)
      in
      bnd (os_isfile jinja_template) (\<lambda>found.
      if \<not> found then ret (Some (''Compose file '' @ jinja_template @ '' is missing''))
      else
      bnd (read_file jinja_template) (\<lambda>template.
      if template = [] then ret (Some (''Compose file '' @ jinja_template @ '' is empty''))
      else
      let data = [(upper service @ ''_IMAGE'', EStr service), (upper service @ ''_TAG'', EStr version)];
          conf_file_name = drop 5 service @ ''.conf'';
          conf_file_path = path_join (path_join dir_path (lower service_type)) conf_file_name
      in
      bnd (os_isfile conf_file_path) (\<lambda>has_conf.
      let data = (if has_conf then AList.update (upper service @ ''_CONF'') (EStr conf_file_path) data
                  else data);
          data = fold (\<lambda>kv d. AList.update (fst kv) (snd kv) d) env_dict data
      in
      bnd (lift (render S template data)) (\<lambda>output.
      let rendered_compose_location = path_join dir_path (service @ ''.yaml'') in
      bnd (write_file rendered_compose_location output) (\<lambda>u.
      ret None)))))))))"

text \<open>
  \<^verbatim>\<open>for service_type in env_dict:\<close> with its \<^verbatim>\<open>continue\<close> and \<^verbatim>\<open>break\<close>, over the items in
  the order of the iteration: a key outside \<open>SERVICE_KEYS\<close> is skipped, the first failing role
  ends the loop.
\<close>

fun roles_loop ::
  "sys \<Rightarrow> string \<Rightarrow> string \<Rightarrow> (string \<times> envval) list \<Rightarrow> (string \<times> envval) list \<Rightarrow> string option io" where
  "roles_loop S dir_path loc env_dict [] w = (Inr None, w)"
| "roles_loop S dir_path loc env_dict (kv # rest) w =
     (if fst kv \<in> set SERVICE_KEYS
      then (case process_role S dir_path loc env_dict (fst kv) (snd kv) w of
              (Inl e, w1) \<Rightarrow> (Inl e, w1)
            | (Inr (Some err), w1) \<Rightarrow> (Inr (Some err), w1)
            | (Inr None, w1) \<Rightarrow> roles_loop S dir_path loc env_dict rest w1)
      else roles_loop S dir_path loc env_dict rest w)"

text \<open>
  The typed map of the manifest: the list values parsed, then
  \<^verbatim>\<open>env_dict.update({'JFIT_ETC_PATH': ETC_DIR_PATH, 'JFIT_OUTPUT_PATH': GROUP_DIR})\<close>.
\<close>

definition build_env_dict :: "sys \<Rightarrow> (string \<times> string) list \<Rightarrow> (string \<times> envval) list" where
  "build_env_dict S raw =
     AList.update ''JFIT_OUTPUT_PATH'' (EStr (GROUP_DIR S))
       (AList.update ''JFIT_ETC_PATH'' (EStr (ETC_DIR_PATH S)) (parse_lists raw))"

definition create_compose_file :: "sys \<Rightarrow> string \<Rightarrow> string \<Rightarrow> int io" where
  "create_compose_file S dir_path compose_snippet_loc =
     (let env_file = path_join dir_path GROUP_ENV_FILE in
      bnd (os_isfile env_file) (\<lambda>found.
      bnd (if \<not> found then print RED (''Unable to find file: '' @ env_file) else ret ()) (\<lambda>u.
      bnd (read_file env_file) (\<lambda>env_file_content.
      bnd (lift (env_dict_of (split_ws env_file_content) [])) (\<lambda>raw.
      let env_dict = build_env_dict S raw in
      bnd (roles_loop S dir_path compose_snippet_loc env_dict (dict_order S env_dict)) (\<lambda>err.
      case err of
        None \<Rightarrow> ret 0
      | Some e \<Rightarrow> bnd (print RED e) (\<lambda>u. ret 1)))))))"

subsection \<open>parse\<close>

record parse_args =
  args_input_file_path :: string
  args_device_group :: string
  args_input_dir :: "string option"

text \<open>Lines 373 to 387: the error, the input file and the input directory.\<close>

definition locate_input :: "sys \<Rightarrow> parse_args \<Rightarrow> (string option \<times> string \<times> string) io" where
  "locate_input S args =
     (let input_dir0 = (if truthy (args_input_dir args) then format_opt (args_input_dir args) else PARSE_INPUT_DIR S) in
      bnd getcwd (\<lambda>cwd0.
      let path0 = path_join cwd0 (args_input_file_path args) in
      bnd (os_isfile path0) (\<lambda>found.
      if \<not> found
      then (let path1 = path_join (FILE_DIR_PATH S) (args_input_file_path args) in
            bnd (os_isfile path1) (\<lambda>found1.
            if \<not> found1 then ret (Some (''Unable to locate file '' @ args_input_file_path args), path1, input_dir0)
            else ret (None, path1, input_dir0)))
      else
      bnd (os_isdir input_dir0) (\<lambda>isd.
      if \<not> isd
      then (let full_input_path = path_join (FILE_DIR_PATH S) input_dir0 in
            bnd (os_isdir full_input_path) (\<lambda>isd1.
            if \<not> isd1 then ret (Some (''Invalid input directory: '' @ input_dir0), path0, input_dir0)
            else ret (None, path0, full_input_path)))
      else ret (None, path0, input_dir0)))))"

text \<open>Lines 393 to 398: the output folder is made, or removed with all its content and made again.\<close>

definition reset_output_folder :: "sys \<Rightarrow> unit io" where
  "reset_output_folder S =
     (let output_folder = GROUP_DIR S in
      bnd (os_isdir output_folder) (\<lambda>isd.
      if \<not> isd then makedirs output_folder
      else bnd (rmtree output_folder) (\<lambda>u. makedirs output_folder)))"

text \<open>\<^verbatim>\<open>'{}'.format(tags)\<close> for the decoded tag: a string as it is, \<^verbatim>\<open>None\<close>, a number or a Boolean
  as Python prints them; a list or a dict are printed by their \<^verbatim>\<open>repr\<close>, which is not modelled
  (they stand as \<^verbatim>\<open>[...]\<close> and \<^verbatim>\<open>{...}\<close>).\<close>

definition format_json :: "json \<Rightarrow> string" where
  "format_json j =
     (case j of
        JStr t \<Rightarrow> t
      | JNull \<Rightarrow> ''None''
      | JBool b \<Rightarrow> (if b then ''True'' else ''False'')
      | JNum n \<Rightarrow> show_int n
      | JArr xs \<Rightarrow> ''[...]''
      | JObj kvs \<Rightarrow> ''{...}'')"

definition spaces :: "nat \<Rightarrow> string" where
  "spaces n = replicate n CHR '' ''"

text \<open>The two command lines; the continuation lines of the source leave runs of blanks in them.\<close>

definition parse_command :: "string \<Rightarrow> string" where
  "parse_command dg =
     ''python /jfit/jfit.py'' @ spaces 21 @ ''--config /input.json'' @ spaces 20
     @ ''--device-group '' @ dg @ spaces 20 @ ''--output-dir /output/core_output'' @ spaces 20
     @ ''--data-base-path /input'' @ spaces 20"

text \<open>\<open>output_mount\<close> is the real path of \<^verbatim>\<open>GROUP_DIR/..\<close>, taken to be \<open>ETC_DIR_PATH\<close>.\<close>

definition docker_parse_command :: "sys \<Rightarrow> string \<Rightarrow> string \<Rightarrow> json \<Rightarrow> string \<Rightarrow> string" where
  "docker_parse_command S ifp idir tags dg =
     ''docker run -i -d'' @ spaces 29 @ ''-v '' @ ifp @ '':/input.json'' @ spaces 29
     @ ''-v '' @ ETC_DIR_PATH S @ '':/output/'' @ spaces 29
     @ ''-v '' @ idir @ '':/input/'' @ spaces 29
     @ format_json tags @ '' '' @ parse_command dg"

definition status_command :: "string \<Rightarrow> string" where
  "status_command container_id =
     ''docker inspect --format='' @ [CHR 0x22] @ ''{{.State.Status}}'' @ [CHR 0x22] @ '' '' @ container_id"

definition remove_command :: "string \<Rightarrow> string" where
  "remove_command container_id = ''docker rm -f '' @ container_id"

text \<open>
  \<^verbatim>\<open>while status != 'exited': status = execute(status_command); time.sleep(5)\<close>. The loop has
  no bound of its own; the model counts the polls it may still make, and \<open>None\<close> says that the
  loop is still running when the count is used up.
\<close>

fun wait_exited :: "sys \<Rightarrow> string \<Rightarrow> nat \<Rightarrow> world \<Rightarrow> (exn + unit) option \<times> world" where
  "wait_exited S cmd 0 w = (None, w)"
| "wait_exited S cmd (Suc n) w =
     (case bnd (execute S cmd) (\<lambda>status. bnd (sleep 5) (\<lambda>u. ret status)) w of
        (Inl e, w1) \<Rightarrow> (Some (Inl e), w1)
      | (Inr status, w1) \<Rightarrow>
          if status \<noteq> ''exited'' then wait_exited S cmd n w1 else (Some (Inr ()), w1))"

text \<open>Lines 426 to 438: the \<^verbatim>\<open>try\<close> block and its handler; the value is \<open>ret_code\<close>.\<close>

definition run_parse_container :: "sys \<Rightarrow> nat \<Rightarrow> string \<Rightarrow> world \<Rightarrow> (exn + int) option \<times> world" where
  "run_parse_container S fuel docker_cmd w =
     (case execute S docker_cmd w of
        (Inl (CalledProcessError rc), w1) \<Rightarrow> (Some (Inr rc), w1)
      | (Inl e, w1) \<Rightarrow> (Some (Inl e), w1)
      | (Inr container_id, w1) \<Rightarrow>
          (case wait_exited S (status_command container_id) fuel w1 of
             (None, w2) \<Rightarrow> (None, w2)
           | (Some (Inl (CalledProcessError rc)), w2) \<Rightarrow> (Some (Inr rc), w2)
           | (Some (Inl e), w2) \<Rightarrow> (Some (Inl e), w2)
           | (Some (Inr u), w2) \<Rightarrow>
               (case execute S (remove_command container_id) w2 of
                  (Inl (CalledProcessError rc), w3) \<Rightarrow> (Some (Inr rc), w3)
                | (Inl e, w3) \<Rightarrow> (Some (Inl e), w3)
                | (Inr out, w3) \<Rightarrow> (Some (Inr 0), w3))))"

text \<open>
  Events of the helper container: a remove command, a status poll that reported the terminal
  state, and the three events of one round of the loop (the command printed, the poll with its
  output, the sleep of five seconds).
\<close>

definition is_remove :: "event \<Rightarrow> bool" where
  "is_remove e = (case e of Exec c rc out \<Rightarrow> startswith ''docker rm -f '' c | _ \<Rightarrow> False)"

definition is_exited_poll :: "event \<Rightarrow> bool" where
  "is_exited_poll e =
     (case e of
        Exec c rc out \<Rightarrow> startswith ''docker inspect '' c \<and> rc = 0 \<and> strip out = ''exited''
      | _ \<Rightarrow> False)"

definition poll_round :: "string \<Rightarrow> string \<Rightarrow> event list" where
  "poll_round cmd out = [Print CYAN cmd, Exec cmd 0 out, Sleep 5]"

text \<open>\<^verbatim>\<open>ret_codes = [_create_compose_file(x) for x in group_folders]\<close>\<close>

fun create_all :: "sys \<Rightarrow> string list \<Rightarrow> int list io" where
  "create_all S [] w = (Inr [], w)"
| "create_all S (x # xs) w =
     (case create_compose_file S x (COMPOSE_SNIPPET_DIR S) w of
        (Inl e, w1) \<Rightarrow> (Inl e, w1)
      | (Inr c, w1) \<Rightarrow>
          (case create_all S xs w1 of
             (Inl e, w2) \<Rightarrow> (Inl e, w2)
           | (Inr cs, w2) \<Rightarrow> (Inr (c # cs), w2)))"

text \<open>Lines 442 to 459, reached with \<open>ret_code = 0\<close>.\<close>

definition group_folders_of :: "sys \<Rightarrow> world \<Rightarrow> string list \<Rightarrow> string list" where
  "group_folders_of S w names =
     map (path_join (GROUP_DIR S))
       (filter (\<lambda>x. \<not> startswith ''.'' x \<and> isdir (fs w) (resolve w (path_join (GROUP_DIR S) x))) names)"

definition assemble_groups :: "sys \<Rightarrow> int io" where
  "assemble_groups S =
     bnd (os_isdir (GROUP_DIR S)) (\<lambda>isd.
     if \<not> isd then bnd (print RED ''Unable to parse input configuration'') (\<lambda>u. ret 1)
     else
     bnd (listdir (GROUP_DIR S)) (\<lambda>names.
     bnd (\<lambda>w. (Inr (group_folders_of S w names), w)) (\<lambda>group_folders.
     if group_folders = [] then bnd (print RED ''Unable to parse the input configuration'') (\<lambda>u. ret 1)
     else
     bnd (create_all S group_folders) (\<lambda>ret_codes.
     let non_zero = filter (\<lambda>x. x \<noteq> 0) ret_codes
     in ret (if non_zero \<noteq> [] then 1 else 0)))))"

text \<open>Lines 399 to 459: the tag of the helper image, the helper container, the groups.\<close>

definition parse_container ::
  "sys \<Rightarrow> nat \<Rightarrow> parse_args \<Rightarrow> string \<Rightarrow> string \<Rightarrow> world \<Rightarrow> (exn + int) option \<times> world" where
  "parse_container S fuel args ifp idir w =
     (case get_container_tags S (path_join (DOCKER_IMAGE_DIR S) (''jfit_core'' @ ''.tar.gz'')) w of
        (Inl e, w1) \<Rightarrow> (Some (Inl e), w1)
      | (Inr tags, w1) \<Rightarrow>
          (case run_parse_container S fuel (docker_parse_command S ifp idir tags (args_device_group args)) w1 of
             (None, w2) \<Rightarrow> (None, w2)
           | (Some (Inl e), w2) \<Rightarrow> (Some (Inl e), w2)
           | (Some (Inr ret_code), w2) \<Rightarrow>
               if ret_code \<noteq> 0 then (Some (Inr ret_code), w2)
               else (case assemble_groups S w2 of (r, w3) \<Rightarrow> (Some r, w3))))"

text \<open>Lines 392 to 459, once the input file and directory are located.\<close>

definition parse_located ::
  "sys \<Rightarrow> nat \<Rightarrow> parse_args \<Rightarrow> string \<Rightarrow> string \<Rightarrow> world \<Rightarrow> (exn + int) option \<times> world" where
  "parse_located S fuel args ifp idir w =
     (case reset_output_folder S w of
        (Inl e, w1) \<Rightarrow> (Some (Inl e), w1)
      | (Inr u, w1) \<Rightarrow> parse_container S fuel args ifp idir w1)"

definition parse :: "sys \<Rightarrow> nat \<Rightarrow> parse_args \<Rightarrow> world \<Rightarrow> (exn + int) option \<times> world" where
  "parse S fuel args w =
     (case locate_input S args w of
        (Inl e, w0) \<Rightarrow> (Some (Inl e), w0)
      | (Inr (Some err, ifp, idir), w0) \<Rightarrow>
          (case bnd (print RED err) (\<lambda>u. ret 1) w0 of (r, w1) \<Rightarrow> (Some r, w1))
      | (Inr (None, ifp, idir), w0) \<Rightarrow> parse_located S fuel args ifp idir w0)"


section \<open>A scripted environment for running the model\<close>

text \<open>
  External programs answer from a table: command line to the list of its successive answers
  (exit status, output, files it leaves, named relative to the working directory); the last
  answer repeats. A command that is not in the table exits with status 127.
\<close>

definition times_run :: "string \<Rightarrow> event list \<Rightarrow> nat" where
  "times_run cmd t = length (filter (\<lambda>e. case e of Exec c r out \<Rightarrow> c = cmd | _ \<Rightarrow> False) t)"

definition scripted ::
  "(string \<times> ((int \<times> string) \<times> filesys) list) list \<Rightarrow> string \<Rightarrow> world \<Rightarrow> (int \<times> string) \<times> filesys" where
  "scripted tbl cmd w =
     (case map_of tbl cmd of
        None \<Rightarrow> ((127, ''command not found''), fs w)
      | Some [] \<Rightarrow> ((127, ''command not found''), fs w)
      | Some (r # rs) \<Rightarrow>
          (let answer = (r # rs) ! min (times_run cmd (trace w)) (length rs)
           in (fst answer,
               fold (\<lambda>e f. AList.update (path_join (cwd w) (fst e)) (snd e) f) (snd answer) (fs w))))"

definition manifest_re :: string where
  \<open>manifest_re = ''[{"RepoTags":["jfit_re:1.2"]}]''\<close>

definition manifest_te :: string where
  \<open>manifest_te = ''[{"RepoTags":["jfit_te:1.0"]}]''\<close>

definition manifest_untagged :: string where
  \<open>manifest_untagged = ''[{"RepoTags":null}]''\<close>

definition manifest_core :: string where
  \<open>manifest_core = ''[{"RepoTags":["jfit_core:1.0"]}]''\<close>

definition example_json :: "string \<Rightarrow> json option" where
  "example_json =
     map_of [(manifest_re, JArr [JObj [(''RepoTags'', JArr [JStr ''jfit_re:1.2''])]]),
             (manifest_core, JArr [JObj [(''RepoTags'', JArr [JStr ''jfit_core:1.0''])]]),
             (manifest_te, JArr [JObj [(''RepoTags'', JArr [JStr ''jfit_te:1.0''])]]),
             (manifest_untagged, JArr [JObj [(''RepoTags'', JNull)]])]"

text \<open>
  The command lines of the examples have no single quote, no backslash and no blank inside
  double quotes: their tokens are the blank-separated words, without the double quotes; an odd
  number of double quotes is a quotation that is not closed. A template without placeholders
  renders to itself; a dict is iterated in the order of insertion.
\<close>

fun quotes_closed :: "bool \<Rightarrow> string \<Rightarrow> bool" where
  "quotes_closed closed [] = closed"
| "quotes_closed closed (x # xs) = quotes_closed (if x = CHR 0x22 then \<not> closed else closed) xs"

definition example_shlex :: "string \<Rightarrow> string list option" where
  "example_shlex c =
     (if quotes_closed True c then Some (split_ws (filter (\<lambda>x. x \<noteq> CHR 0x22) c)) else None)"

definition example_sys :: "(string \<times> ((int \<times> string) \<times> filesys) list) list \<Rightarrow> sys" where
  "example_sys tbl =
     \<lparr>install_dir = ''opt/jfit'', shlex_split = example_shlex, run = scripted tbl,
      json_loads = example_json,
      render = (\<lambda>t d. Inr t), dict_order = (\<lambda>d. d)\<rparr>"

definition invocations :: "event list \<Rightarrow> string list" where
  "invocations t =
     List.map_filter (\<lambda>e. case e of Exec c r out \<Rightarrow> Some c | Shell c r \<Rightarrow> Some c | _ \<Rightarrow> None) t"

text \<open>A group directory with its manifest and two rendered documents.\<close>

definition example_group :: world where
  "example_group =
     \<lparr>fs = [(''/opt/jfit/etc/core_output/g'', Dir),
            (''/opt/jfit/etc/core_output/g/source.env'', File ''RULE_ENGINE=re DATABASE=db''),
            (''/opt/jfit/etc/core_output/g/jfit_re.yaml'', File ''services: re''),
            (''/opt/jfit/etc/core_output/g/jfit_db.yaml'', File ''services: db'')],
      cwd = ''/'', trace = []\<rparr>"

text \<open>
  An installation under \<^verbatim>\<open>/opt/jfit\<close>: image archives, templates and the output folder. The
  archive of \<^verbatim>\<open>jfit_re\<close> and \<^verbatim>\<open>jfit_te\<close> hold a manifest with one tag; the manifest of
  \<^verbatim>\<open>jfit_bad\<close> has \<^verbatim>\<open>"RepoTags": null\<close> (an image saved without a tag); \<^verbatim>\<open>jfit_db\<close> is not
  a tar archive. There are a device
  model \<^verbatim>\<open>model.json\<close>, an input directory and the archive of the helper image.
\<close>

definition tar_command :: "string \<Rightarrow> string" where
  "tar_command name = ''tar -xf /opt/jfit/docker_images/'' @ name @ ''.tar.gz manifest.json''"

definition example_tars :: "(string \<times> ((int \<times> string) \<times> filesys) list) list" where
  "example_tars =
     [(tar_command ''jfit_re'', [((0, ''''), [(''manifest.json'', File manifest_re)])]),
      (tar_command ''jfit_te'', [((0, ''''), [(''manifest.json'', File manifest_te)])]),
      (tar_command ''jfit_bad'', [((0, ''''), [(''manifest.json'', File manifest_untagged)])]),
      (tar_command ''jfit_db'', [((2, ''tar: This does not look like a tar archive''), [])]),
      (tar_command ''jfit_core'', [((0, ''''), [(''manifest.json'', File manifest_core)])])]"

definition example_install :: filesys where
  "example_install =
     [(''/opt'', Dir),
      (''/opt/jfit'', Dir),
      (''/opt/jfit/docker_images'', Dir),
      (''/opt/jfit/docker_images/jfit_re.tar.gz'', File ''archive''),
      (''/opt/jfit/docker_images/jfit_te.tar.gz'', File ''archive''),
      (''/opt/jfit/docker_images/jfit_bad.tar.gz'', File ''archive''),
      (''/opt/jfit/docker_images/jfit_db.tar.gz'', File ''not an archive''),
      (''/opt/jfit/compose_files'', Dir),
      (''/opt/jfit/compose_files/jfit_re.yaml.j2'', File ''services: re''),
      (''/opt/jfit/compose_files/jfit_te.yaml.j2'', File ''services: te''),
      (''/opt/jfit/compose_files/jfit_te_training.yaml.j2'', File ''services: te training''),
      (''/opt/jfit/etc'', Dir),
      (''/opt/jfit/etc/core_output'', Dir),
      (''/opt/jfit/docker_images/jfit_core.tar.gz'', File ''archive''),
      (''/opt/jfit/model.json'', File ''{}''),
      (''/opt/jfit/input'', Dir)]"

definition installed :: "filesys \<Rightarrow> world" where
  "installed groups = \<lparr>fs = example_install @ groups, cwd = ''/opt/jfit'', trace = []\<rparr>"

text \<open>
  Group directories: \<open>unassembled\<close> has a manifest and no document; \<open>no_manifest\<close> has no
  manifest; \<open>training\<close> names the training engine; \<open>mixed\<close> names three roles, the second
  without an image archive; \<open>single\<close> names one role; \<open>broken\<close> names the role whose archive
  tar cannot read.
\<close>

definition group_path :: "string \<Rightarrow> string" where
  "group_path g = ''/opt/jfit/etc/core_output/'' @ g"

definition group_entries :: "string \<Rightarrow> string \<Rightarrow> filesys" where
  "group_entries g manifest = [(group_path g, Dir), (group_path g @ ''/source.env'', File manifest)]"

definition unassembled :: filesys where
  "unassembled = group_entries ''g0'' ''RULE_ENGINE=re''"

definition no_manifest :: filesys where
  "no_manifest = [(group_path ''g1'', Dir)]"

definition training :: filesys where
  "training = group_entries ''g2'' ''TRAINING_ENGINE=te''"


definition single :: filesys where
  "single = group_entries ''g4'' ''RULE_ENGINE=re''"


text \<open>
  The helper container: its command line for the model \<^verbatim>\<open>model.json\<close> and the device group
  \<^verbatim>\<open>dg\<close>; a script in which it writes the directory of one group, reports \<^verbatim>\<open>running\<close> twice and
  then \<^verbatim>\<open>exited\<close>, and is removed; and a script in which it reports \<^verbatim>\<open>running\<close> for ever.
  \<open>assembled\<close> is a group left by an earlier run, with its rendered document.
\<close>

definition helper_command :: string where
  "helper_command =
     docker_parse_command (example_sys []) ''/opt/jfit/model.json'' ''/opt/jfit/input''
       (JStr ''jfit_core:1.0'') ''dg''"

definition helper_exits :: "(string \<times> ((int \<times> string) \<times> filesys) list) list" where
  "helper_exits =
     example_tars @
     [(helper_command,
        [((0, ''c1'' @ [CHR 0x0A]),
          [(''/opt/jfit/etc/core_output/dg'', Dir),
           (''/opt/jfit/etc/core_output/dg/source.env'', File ''RULE_ENGINE=re'')])]),
      (status_command ''c1'',
        [((0, ''running'' @ [CHR 0x0A]), []), ((0, ''running'' @ [CHR 0x0A]), []),
         ((0, ''exited'' @ [CHR 0x0A]), [])]),
      (remove_command ''c1'', [((0, ''c1'' @ [CHR 0x0A]), [])])]"

definition helper_runs_on :: "(string \<times> ((int \<times> string) \<times> filesys) list) list" where
  "helper_runs_on =
     example_tars @
     [(helper_command, [((0, ''c1'' @ [CHR 0x0A]), [])]),
      (status_command ''c1'', [((0, ''running'' @ [CHR 0x0A]), [])])]"

definition assembled :: filesys where
  "assembled = group_entries ''old'' ''RULE_ENGINE=re''
               @ [(group_path ''old'' @ ''/jfit_re.yaml'', File ''services: re'')]"

definition example_parse_args :: parse_args where
  "example_parse_args =
     \<lparr>args_input_file_path = ''model.json'', args_device_group = ''dg'', args_input_dir = None\<rparr>"

text \<open>The trace of \<open>w'\<close> continues the trace of \<open>w\<close>.\<close>

definition extends_trace :: "world \<Rightarrow> world \<Rightarrow> bool" where
  "extends_trace w w' = (take (length (trace w)) (trace w') = trace w)"

section \<open>Helper lemmas\<close>

lemma invocations_append [simp]: "invocations (a @ b) = invocations a @ invocations b"
  by (simp add: invocations_def List.map_filter_def)

lemma invocations_simps [simp]:
  "invocations [] = []"
  "invocations (Print c s # t) = invocations t"
  "invocations (Exec cmd r out # t) = cmd # invocations t"
  "invocations (Shell cmd r # t) = cmd # invocations t"
  "invocations (Sleep n # t) = invocations t"
  by (simp_all add: invocations_def List.map_filter_def)

lemma path_join_absolute [simp]: "startswith ''/'' p \<Longrightarrow> path_join c p = p"
  by (simp add: path_join_def)

lemma absolute_path_join: "startswith ''/'' a \<Longrightarrow> startswith ''/'' (path_join a b)"
  by (cases a) (auto simp: path_join_def startswith_def)

lemma absolute_FILE_DIR_PATH [simp]: "startswith ''/'' (FILE_DIR_PATH S)"
  by (simp add: FILE_DIR_PATH_def startswith_def)

lemma absolute_GROUP_DIR [simp]: "startswith ''/'' (GROUP_DIR S)"
  by (simp add: GROUP_DIR_def ETC_DIR_PATH_def absolute_path_join)

lemma absolute_group_dir_path [simp]: "startswith ''/'' (get_group_dir_path S g)"
  by (simp add: get_group_dir_path_def absolute_path_join)

lemma resolve_absolute [simp]: "startswith ''/'' p \<Longrightarrow> resolve w p = p"
  by (simp add: resolve_def)

lemma py_join_snoc: "py_join sep (x # ds @ [d]) = py_join sep (x # ds) @ sep @ d"
  by (induction ds arbitrary: x) simp_all

lemma py_join_flags: "ds \<noteq> [] \<Longrightarrow> py_join '' -f '' ([] # ds) = concat (map (\<lambda>d. '' -f '' @ d) ds)"
proof (induction ds rule: rev_induct)
  case Nil
  then show ?case by simp
next
  case (snoc d ds)
  show ?case
  proof (cases "ds = []")
    case True
    then show ?thesis by simp
  next
    case False
    with snoc show ?thesis by (simp add: py_join_snoc)
  qed
qed

lemma map_of_parse_lists:
  "map_of (parse_lists raw) k =
     map_option (\<lambda>v. if endswith ''_LIST'' k then EList (split_on CHR '','' (butlast (tl v))) else EStr v)
       (map_of raw k)"
  by (induction raw) (auto simp: parse_lists_def)

lemma split_on_no_sep: "c \<notin> set a \<Longrightarrow> split_on c a = [a]"
  by (induction a) auto

lemma split_on_append_sep: "c \<notin> set a \<Longrightarrow> split_on c (a @ c # r) = a # split_on c r"
  by (induction a) auto

lemma split_on_py_join_Cons:
  "\<forall>y\<in>set (x # ys). c \<notin> set y \<Longrightarrow> split_on c (py_join [c] (x # ys)) = x # ys"
proof (induction ys arbitrary: x)
  case Nil
  then show ?case by (simp add: split_on_no_sep)
next
  case (Cons y ys)
  then show ?case by (simp add: split_on_append_sep)
qed

lemma split_on_py_join:
  "ys \<noteq> [] \<Longrightarrow> \<forall>y\<in>set ys. c \<notin> set y \<Longrightarrow> split_on c (py_join [c] ys) = ys"
proof (cases ys)
  case Nil
  assume "ys \<noteq> []"
  with Nil show ?thesis by simp
next
  case (Cons a as)
  assume "\<forall>y\<in>set ys. c \<notin> set y"
  with Cons show ?thesis using split_on_py_join_Cons [of a as c] by simp
qed

lemma strip_brackets: "butlast (tl (''['' @ body @ '']'')) = body"
  by (simp add: butlast_append)


lemma absolute_join_FILE_DIR_PATH [simp]: "startswith ''/'' (path_join (FILE_DIR_PATH S) x)"
  by (simp add: absolute_path_join)

text \<open>
  \<open>start\<close>, \<open>stop\<close>, \<open>restart\<close> and \<open>cli\<close> check the group before anything is run: a missing
  directory and a directory without documents both end with 1, a message, and no command.
\<close>

lemma checked_operations_invalid_group:
  assumes "\<not> isdir (fs w) (get_group_dir_path S (args_group_name a))"
  shows "start S a w = (Inr 1, w\<lparr>trace := trace w @ [Print RED ''Group name is not valid'']\<rparr>)"
    and "stop S a w = (Inr 1, w\<lparr>trace := trace w @ [Print RED ''Group name is not valid'']\<rparr>)"
    and "restart S a w = (Inr 1, w\<lparr>trace := trace w @ [Print RED ''Group name is not valid'']\<rparr>)"
    and "cli S a w = (Inr 1, w\<lparr>trace := trace w @ [Print RED ''Group name is not valid'']\<rparr>)"
  using assms
  by (simp_all add: start_def stop_def restart_def cli_def bnd_def ret_def os_isdir_def print_def Let_def)

lemma checked_operations_no_documents:
  assumes "isdir (fs w) (get_group_dir_path S (args_group_name a))"
      and "filter (endswith ''.yaml'') (children (fs w) (get_group_dir_path S (args_group_name a))) = []"
  shows "start S a w = (Inr 1, w\<lparr>cwd := get_group_dir_path S (args_group_name a),
                                 trace := trace w @ [Print RED no_compose_message]\<rparr>)"
    and "stop S a w = (Inr 1, w\<lparr>cwd := get_group_dir_path S (args_group_name a),
                                 trace := trace w @ [Print RED no_compose_message]\<rparr>)"
    and "restart S a w = (Inr 1, w\<lparr>cwd := get_group_dir_path S (args_group_name a),
                                 trace := trace w @ [Print RED no_compose_message]\<rparr>)"
    and "cli S a w = (Inr 1, w\<lparr>cwd := get_group_dir_path S (args_group_name a),
                                 trace := trace w @ [Print RED no_compose_message]\<rparr>)"
  using assms
  by (simp_all add: start_def stop_def restart_def cli_def bnd_def ret_def os_isdir_def print_def
      getcwd_def chdir_def get_compose_files_def listdir_def Let_def)



lemma create_all_length: "create_all S gs w = (Inr codes, w') \<Longrightarrow> length codes = length gs"
  by (induction gs arbitrary: w codes) (auto split: prod.splits sum.splits)

lemma absolute_image_path [simp]:
  "startswith ''/'' (path_join (DOCKER_IMAGE_DIR S) x)"
  by (simp add: DOCKER_IMAGE_DIR_def absolute_path_join)

lemma status_command_prefix [simp]:
  "startswith ''docker inspect '' (status_command cid)"
  "\<not> startswith ''docker rm -f '' (status_command cid)"
  by (simp_all add: status_command_def startswith_def)

lemma docker_parse_command_prefix [simp]:
  "\<not> startswith ''docker rm -f '' (docker_parse_command S ifp idir tags dg)"
  by (simp add: docker_parse_command_def startswith_def)

lemma remove_command_prefix [simp]: "startswith ''docker rm -f '' (remove_command cid)"
  by (simp add: remove_command_def startswith_def)

lemma is_remove_simps [simp]:
  "is_remove (Print c t) = False"
  "is_remove (Exec cmd rc out) = startswith ''docker rm -f '' cmd"
  "is_remove (Shell cmd rc) = False"
  "is_remove (Sleep k) = False"
  by (simp_all add: is_remove_def)

lemma is_exited_poll_simps [simp]:
  "is_exited_poll (Print c t) = False"
  "is_exited_poll (Exec cmd rc out) = (startswith ''docker inspect '' cmd \<and> rc = 0 \<and> strip out = ''exited'')"
  "is_exited_poll (Shell cmd rc) = False"
  "is_exited_poll (Sleep k) = False"
  by (simp_all add: is_exited_poll_def)

lemma wait_exited_events:
  assumes "wait_exited S sc n w = (r, w')"
      and "\<not> startswith ''docker rm -f '' sc" and "startswith ''docker inspect '' sc"
  shows "\<exists>new. trace w' = trace w @ new \<and> \<not> list_ex is_remove new
               \<and> (r = Some (Inr ()) \<longrightarrow> list_ex is_exited_poll new)"
  using assms
proof (induction n arbitrary: w)
  case 0
  then show ?case by simp
next
  case (Suc n)
  show ?case
  proof (cases "shlex_split S sc")
    case None
    with Suc.prems show ?thesis
      by (auto simp: bnd_def execute_def)
  next
    case tokens: (Some args)
    show ?thesis
    proof (cases "fst (fst (run S sc (w\<lparr>trace := trace w @ [Print CYAN sc]\<rparr>))) = 0")
      case False
      with tokens Suc.prems show ?thesis
        by (auto simp: bnd_def execute_def Let_def)
    next
      case rc0: True
      let ?out = "snd (fst (run S sc (w\<lparr>trace := trace w @ [Print CYAN sc]\<rparr>)))"
      let ?w1 = "w\<lparr>fs := snd (run S sc (w\<lparr>trace := trace w @ [Print CYAN sc]\<rparr>)),
                    trace := trace w @ [Print CYAN sc] @ [Exec sc 0 ?out] @ [Sleep 5]\<rparr>"
      show ?thesis
      proof (cases "strip ?out = ''exited''")
        case True
        with tokens rc0 Suc.prems show ?thesis
          by (auto simp: bnd_def execute_def Let_def sleep_def ret_def)
      next
        case False
        with tokens rc0 Suc.prems have "wait_exited S sc n ?w1 = (r, w')"
          by (auto simp: bnd_def execute_def Let_def sleep_def ret_def)
        from Suc.IH[OF this Suc.prems(2,3)] obtain new where
          "trace w' = trace ?w1 @ new" "\<not> list_ex is_remove new"
          "r = Some (Inr ()) \<longrightarrow> list_ex is_exited_poll new"
          by blast
        with Suc.prems(2) show ?thesis
          by auto
      qed
    qed
  qed
qed

lemma wait_exited_never:
  assumes "shlex_split S sc \<noteq> None"
      and "\<forall>w0. fst (fst (run S sc w0)) = 0 \<and> strip (snd (fst (run S sc w0))) \<noteq> ''exited''"
  shows "\<exists>outs. length outs = n \<and> fst (wait_exited S sc n w) = None
               \<and> trace (snd (wait_exited S sc n w)) = trace w @ concat (map (poll_round sc) outs)"
proof (induction n arbitrary: w)
  case 0
  show ?case by simp
next
  case (Suc n)
  let ?out = "snd (fst (run S sc (w\<lparr>trace := trace w @ [Print CYAN sc]\<rparr>)))"
  let ?w1 = "w\<lparr>fs := snd (run S sc (w\<lparr>trace := trace w @ [Print CYAN sc]\<rparr>)),
                trace := trace w @ [Print CYAN sc] @ [Exec sc 0 ?out] @ [Sleep 5]\<rparr>"
  from assms have step: "wait_exited S sc (Suc n) w = wait_exited S sc n ?w1"
    by (auto simp: bnd_def execute_def Let_def sleep_def ret_def)
  from Suc[of ?w1] obtain outs where "length outs = n" "fst (wait_exited S sc n ?w1) = None"
    "trace (snd (wait_exited S sc n ?w1)) = trace ?w1 @ concat (map (poll_round sc) outs)"
    by blast
  with step have "length (?out # outs) = Suc n \<and> fst (wait_exited S sc (Suc n) w) = None
      \<and> trace (snd (wait_exited S sc (Suc n) w)) = trace w @ concat (map (poll_round sc) (?out # outs))"
    by (simp add: poll_round_def)
  then show ?case by blast
qed

lemma locate_input_world: "locate_input S args w = (r, w0) \<Longrightarrow> w0 = w"
  by (auto simp: locate_input_def Let_def bnd_def ret_def getcwd_def os_isfile_def os_isdir_def
      split: if_splits)

lemma below_not_ancestor: "a \<in> set (ancestors q) \<Longrightarrow> \<not> below q a"
  by (auto simp: ancestors_def below_def dir_prefix_def split: if_splits)

lemma below_irrefl: "\<not> below q q"
  by (auto simp: below_def dir_prefix_def startswith_def split: if_splits)

lemma map_of_filter_None:
  "\<not> P p \<Longrightarrow> map_of (filter (\<lambda>e. P (fst e)) f) p = None"
  by (induction f) auto

lemma map_of_filter_keep:
  "P p \<Longrightarrow> map_of (filter (\<lambda>e. P (fst e)) f) p = map_of f p"
  by (induction f) auto

lemma map_of_dirs: "map_of (map (\<lambda>a. (a, Dir)) as) k = (if k \<in> set as then Some Dir else None)"
  by (induction as) auto

lemma ext_refl [simp]: "extends_trace w w"
  by (simp add: extends_trace_def)

lemma ext_append [simp]: "extends_trace w (w'\<lparr>trace := trace w @ t\<rparr>)"
  by (simp add: extends_trace_def)

lemma ext_fs [simp]: "extends_trace w (w'\<lparr>fs := f\<rparr>) = extends_trace w w'"
  by (simp add: extends_trace_def)

lemma ext_cwd [simp]: "extends_trace w (w'\<lparr>cwd := c\<rparr>) = extends_trace w w'"
  by (simp add: extends_trace_def)

lemma ext_iff: "extends_trace w w' = (\<exists>t. trace w' = trace w @ t)"
  by (auto simp: extends_trace_def) (metis append_take_drop_id)

lemma ext_trans: "extends_trace a b \<Longrightarrow> extends_trace b c \<Longrightarrow> extends_trace a c"
  by (auto simp: ext_iff)

lemma ext_bnd:
  assumes "\<And>w. extends_trace w (snd (m w))" and "\<And>x w. extends_trace w (snd (f x w))"
  shows "extends_trace w (snd (bnd m f w))"
proof (cases "m w")
  case (Pair r w1)
  with assms(1)[of w] have 1: "extends_trace w w1" by simp
  show ?thesis
  proof (cases r)
    case (Inl e)
    with Pair 1 show ?thesis by (simp add: bnd_def)
  next
    case (Inr x)
    with Pair have "bnd m f w = f x w1" by (simp add: bnd_def)
    with 1 assms(2)[of w1 x] show ?thesis by (auto intro: ext_trans)
  qed
qed

lemma ext_try_cpe:
  assumes "\<And>w. extends_trace w (snd (m w))" and "\<And>x w. extends_trace w (snd (h x w))"
  shows "extends_trace w (snd (try_cpe m h w))"
proof (cases "m w")
  case (Pair r w1)
  with assms(1)[of w] have 1: "extends_trace w w1" by simp
  from Pair 1 assms(2) show ?thesis
    by (auto simp: try_cpe_def split: sum.splits exn.splits intro: ext_trans)
qed

lemma ext_if:
  "extends_trace w (snd (a w)) \<Longrightarrow> extends_trace w (snd (b w))
   \<Longrightarrow> extends_trace w (snd ((if c then a else b) w))"
  by simp

lemma ext_case_option:
  "extends_trace w (snd (a w)) \<Longrightarrow> (\<And>x. extends_trace w (snd (b x w)))
   \<Longrightarrow> extends_trace w (snd ((case v of None \<Rightarrow> a | Some x \<Rightarrow> b x) w))"
  by (cases v) simp_all

lemma ext_prims [simp]:
  "extends_trace w (snd (ret x w))"
  "extends_trace w (snd (raise e w))"
  "extends_trace w (snd (lift r w))"
  "extends_trace w (snd (print c s w))"
  "extends_trace w (snd (os_isfile p w))"
  "extends_trace w (snd (os_isdir p w))"
  "extends_trace w (snd (getcwd w))"
  "extends_trace w (snd (chdir p w))"
  "extends_trace w (snd (listdir p w))"
  "extends_trace w (snd (read_file p w))"
  "extends_trace w (snd (write_file p t w))"
  "extends_trace w (snd (os_remove p w))"
  "extends_trace w (snd (rmtree p w))"
  "extends_trace w (snd (makedirs p w))"
  "extends_trace w (snd (sleep n w))"
  "extends_trace w (snd (execute S cmd w))"
  by (simp_all add: ret_def raise_def lift_def print_def os_isfile_def os_isdir_def getcwd_def
      chdir_def listdir_def read_file_def write_file_def os_remove_def rmtree_def makedirs_def
      sleep_def execute_def Let_def extends_trace_def split: option.splits node.splits)

lemmas ext_rules = ext_bnd ext_try_cpe ext_if ext_case_option ext_prims

lemma ext_json_load: "extends_trace w (snd (json_load S p w))"
  unfolding json_load_def by (intro ext_rules)

lemma ext_get_container_tags: "extends_trace w (snd (get_container_tags S p w))"
  unfolding get_container_tags_def Let_def by (intro ext_rules ext_json_load)

lemma ext_process_role: "extends_trace w (snd (process_role S d loc env k v w))"
  unfolding process_role_def Let_def by (intro ext_rules ext_get_container_tags)

lemma ext_roles_loop: "extends_trace w (snd (roles_loop S d loc env xs w))"
proof (induction xs arbitrary: w)
  case Nil
  show ?case by simp
next
  case (Cons kv xs)
  have "extends_trace w (snd (process_role S d loc env (fst kv) (snd kv) w))"
    by (rule ext_process_role)
  with Cons show ?case
    by (auto split: prod.splits sum.splits option.splits intro: ext_trans)
qed

lemma ext_create_compose_file: "extends_trace w (snd (create_compose_file S d loc w))"
  unfolding create_compose_file_def Let_def by (intro ext_rules ext_roles_loop)

lemma ext_create_all: "extends_trace w (snd (create_all S gs w))"
proof (induction gs arbitrary: w)
  case Nil
  show ?case by simp
next
  case (Cons g gs)
  obtain r w1 where c: "create_compose_file S g (COMPOSE_SNIPPET_DIR S) w = (r, w1)"
    by (cases "create_compose_file S g (COMPOSE_SNIPPET_DIR S) w")
  with ext_create_compose_file [of w S g "COMPOSE_SNIPPET_DIR S"] have 1: "extends_trace w w1"
    by simp
  obtain r2 w2 where a: "create_all S gs w1 = (r2, w2)"
    by (cases "create_all S gs w1")
  with Cons [of w1] have "extends_trace w1 w2"
    by simp
  with 1 have "extends_trace w w2"
    by (rule ext_trans)
  with c a 1 show ?case
    by (auto split: sum.splits)
qed

lemma ext_assemble_groups: "extends_trace w (snd (assemble_groups S w))"
  unfolding assemble_groups_def Let_def by (intro ext_rules ext_create_all) simp


lemma tar_not_remove [simp]: "\<not> startswith ''docker rm -f '' (''tar -xf '' @ x)"
  by (simp add: startswith_def)

lemma tags_events:
  assumes "get_container_tags S p w = (r, w')"
  shows "\<exists>a. trace w' = trace w @ a \<and> \<not> list_ex is_remove a"
proof -
  let ?cmd = "''tar -xf '' @ p @ '' manifest.json''"
  have ex: "\<And>w0 r1 w1. execute S ?cmd w0 = (r1, w1)
              \<Longrightarrow> \<exists>a. trace w1 = trace w0 @ a \<and> \<not> list_ex is_remove a"
    by (auto simp: execute_def Let_def startswith_def split: if_splits option.splits)
  obtain r1 w1 where e: "execute S ?cmd (w\<lparr>cwd := FILE_DIR_PATH S\<rparr>) = (r1, w1)"
    by (cases "execute S ?cmd (w\<lparr>cwd := FILE_DIR_PATH S\<rparr>)")
  from ex[OF e] obtain a where a: "trace w1 = trace w @ a" "\<not> list_ex is_remove a"
    by auto
  from assms e have "trace w' = trace w \<or> trace w' = trace w1"
    by (auto simp: get_container_tags_def bnd_def ret_def raise_def getcwd_def chdir_def
        json_load_def read_file_def lift_def os_remove_def Let_def
        split: prod.splits sum.splits if_splits option.splits node.splits)
  with a show ?thesis by auto
qed

lemma reset_output_folder_trace: "trace (snd (reset_output_folder S w)) = trace w"
  by (simp add: reset_output_folder_def Let_def bnd_def os_isdir_def rmtree_def makedirs_def)

lemma run_parse_container_events:
  assumes run: "run_parse_container S n dc w = (r, w')"
      and dc: "\<not> startswith ''docker rm -f '' dc"
  shows "\<exists>b. trace w' = trace w @ b
             \<and> (list_ex is_remove b \<longrightarrow> list_ex is_exited_poll (takeWhile (\<lambda>e. \<not> is_remove e) b))
             \<and> (r = Some (Inr 0) \<longrightarrow> list_ex is_remove b)"
proof -
  obtain r1 w1 where ex: "execute S dc w = (r1, w1)" by (cases "execute S dc w")
  with dc obtain a where t1: "trace w1 = trace w @ a" and na: "\<not> list_ex is_remove a"
     and rc: "\<And>c. r1 = Inl (CalledProcessError c) \<Longrightarrow> c \<noteq> 0"
    by (auto simp: execute_def Let_def split: if_splits option.splits)
  show ?thesis
  proof (cases r1)
    case (Inl e)
    with run ex t1 na rc show ?thesis
      by (auto simp: run_parse_container_def split: exn.splits)
  next
    case (Inr cid)
    obtain r2 w2 where wt: "wait_exited S (status_command cid) n w1 = (r2, w2)"
      by (cases "wait_exited S (status_command cid) n w1")
    from wait_exited_events[OF wt] obtain new where
      t2: "trace w2 = trace w1 @ new" and nn: "\<not> list_ex is_remove new"
      and ep: "r2 = Some (Inr ()) \<longrightarrow> list_ex is_exited_poll new"
      by auto
    have fail: "\<And>c. r2 = Some (Inl (CalledProcessError c)) \<Longrightarrow> c \<noteq> 0"
    proof -
      fix c assume "r2 = Some (Inl (CalledProcessError c))"
      with wt show "c \<noteq> 0"
      proof (induction n arbitrary: w1)
        case 0
        then show ?case by simp
      next
        case (Suc n)
        then show ?case
          by (auto simp: bnd_def execute_def Let_def sleep_def ret_def split: if_splits option.splits)
      qed
    qed
    show ?thesis
    proof (cases "r2 = Some (Inr ())")
      case False
      with run ex Inr wt t1 t2 na nn fail show ?thesis
        by (auto simp: run_parse_container_def split: option.splits sum.splits exn.splits)
    next
      case True
      show ?thesis
      proof (cases "shlex_split S (remove_command cid)")
        case None
        with run ex Inr wt True have "w' = w2" "r = Some (Inl ValueError)"
          by (auto simp: run_parse_container_def execute_def)
        with t1 t2 na nn show ?thesis
          by auto
      next
        case tokens: (Some args)
        obtain r3 w3 where e3: "execute S (remove_command cid) w2 = (r3, w3)"
          by (cases "execute S (remove_command cid) w2")
        with tokens obtain tl where t3: "trace w3 = trace w2 @ Print CYAN (remove_command cid) # tl"
           and hd: "tl \<noteq> [] \<and> is_remove (hd tl)"
          by (auto simp: execute_def Let_def split: if_splits)
        from run ex Inr wt True e3 have "w' = w3"
          by (auto simp: run_parse_container_def split: sum.splits exn.splits)
        with t1 t2 t3 have "trace w' = trace w @ a @ new @ Print CYAN (remove_command cid) # tl"
          by simp
        moreover from hd obtain x xs where "tl = x # xs" "is_remove x"
          by (cases tl) auto
        ultimately show ?thesis
          using na nn ep True by (auto simp: list_ex_iff takeWhile_append)
      qed
    qed
  qed
qed

lemma execute_invocations:
  "shlex_split S c \<noteq> None \<Longrightarrow> invocations (trace (snd (execute S c w))) = invocations (trace w) @ [c]"
  by (auto simp: execute_def Let_def)

section \<open>Properties\<close>

text \<open>
  C7. For a group directory that exists and lists at least one \<^verbatim>\<open>.yaml\<close> document, \<open>start\<close>
  runs exactly one external command, provided the command line tokenises (\<^verbatim>\<open>shlex.split\<close> does
  not raise). Without a service it is
  \<^verbatim>\<open>docker-compose -p GROUP  -f doc1 -f doc2 ... up -d\<close>, every document of the listing in the
  order of the listing; with a (non-empty) service it is the same list of documents followed by
  \<^verbatim>\<open>start SERVICE\<close>, the service name as it was given.
\<close>

theorem start_builds_compose_command:
  assumes "isdir (fs w) (get_group_dir_path S g)"
      and "filter (endswith ''.yaml'') (children (fs w) (get_group_dir_path S g)) = docs"
      and "docs \<noteq> []"
      and "up = ''docker-compose -p '' @ g @ '' '' @ concat (map (\<lambda>d. '' -f '' @ d) docs) @ '' up -d''"
      and "scoped = ''docker-compose -p '' @ g @ '' '' @ concat (map (\<lambda>d. '' -f '' @ d) docs)
                    @ '' start '' @ s"
  shows "(shlex_split S up \<noteq> None \<longrightarrow>
          invocations (trace (snd (start S \<lparr>args_group_name = g, args_service = None\<rparr> w)))
            = invocations (trace w) @ [up])
       \<and> (s \<noteq> [] \<longrightarrow> shlex_split S scoped \<noteq> None \<longrightarrow>
          invocations (trace (snd (start S \<lparr>args_group_name = g, args_service = Some s\<rparr> w)))
            = invocations (trace w) @ [scoped])"
proof -
  let ?d = "get_group_dir_path S g"
  let ?w1 = "w\<lparr>cwd := ?d\<rparr>"
  have tail: "\<And>cmd. shlex_split S cmd \<noteq> None \<Longrightarrow>
      invocations (trace (snd (
        bnd (try_cpe (bnd (execute S cmd) (\<lambda>output. bnd (print PLAIN output) (\<lambda>u. ret 0))) (\<lambda>rc. ret rc))
          (\<lambda>ret_code. bnd (chdir (cwd w)) (\<lambda>u.
             bnd (if ret_code = 0 then print GREEN ''Success!'' else ret ()) (\<lambda>u. ret ret_code))) ?w1)))
      = invocations (trace w) @ [cmd]"
  proof -
    fix cmd assume tk: "shlex_split S cmd \<noteq> None"
    obtain r w2 where e: "execute S cmd ?w1 = (r, w2)"
      by (cases "execute S cmd ?w1")
    with tk have i: "invocations (trace w2) = invocations (trace w) @ [cmd]"
      using execute_invocations [of S cmd ?w1] by simp
    from tk e have "r \<noteq> Inl ValueError \<and> (\<forall>x. r = Inl x \<longrightarrow> (\<exists>rc. x = CalledProcessError rc))"
      by (auto simp: execute_def Let_def split: if_splits)
    with e i show "invocations (trace (snd (
        bnd (try_cpe (bnd (execute S cmd) (\<lambda>output. bnd (print PLAIN output) (\<lambda>u. ret 0))) (\<lambda>rc. ret rc))
          (\<lambda>ret_code. bnd (chdir (cwd w)) (\<lambda>u.
             bnd (if ret_code = 0 then print GREEN ''Success!'' else ret ()) (\<lambda>u. ret ret_code))) ?w1)))
      = invocations (trace w) @ [cmd]"
      by (cases r) (auto simp: bnd_def try_cpe_def ret_def print_def chdir_def split: exn.splits)
  qed
  from assms(1-3) have up_eq: "start S \<lparr>args_group_name = g, args_service = None\<rparr> w =
      bnd (try_cpe (bnd (execute S up) (\<lambda>output. bnd (print PLAIN output) (\<lambda>u. ret 0))) (\<lambda>rc. ret rc))
          (\<lambda>ret_code. bnd (chdir (cwd w)) (\<lambda>u.
             bnd (if ret_code = 0 then print GREEN ''Success!'' else ret ()) (\<lambda>u. ret ret_code))) ?w1"
    by (simp add: start_def bnd_def ret_def os_isdir_def getcwd_def chdir_def get_compose_files_def
        listdir_def Let_def truthy_def format_compose_files_def py_join_flags assms(4))
  from assms(1-3) have sc_eq: "s \<noteq> [] \<Longrightarrow> start S \<lparr>args_group_name = g, args_service = Some s\<rparr> w =
      bnd (try_cpe (bnd (execute S scoped) (\<lambda>output. bnd (print PLAIN output) (\<lambda>u. ret 0))) (\<lambda>rc. ret rc))
          (\<lambda>ret_code. bnd (chdir (cwd w)) (\<lambda>u.
             bnd (if ret_code = 0 then print GREEN ''Success!'' else ret ()) (\<lambda>u. ret ret_code))) ?w1"
    by (simp add: start_def bnd_def ret_def os_isdir_def getcwd_def chdir_def get_compose_files_def
        listdir_def Let_def truthy_def format_opt_def format_compose_files_def py_join_flags assms(5))
  show ?thesis
    using tail up_eq sc_eq by simp
qed

theorem start_builds_compose_command_witness:
  "isdir (fs example_group) (get_group_dir_path (example_sys []) ''g'')
   \<and> filter (endswith ''.yaml'') (children (fs example_group) (get_group_dir_path (example_sys []) ''g''))
       = [''jfit_re.yaml'', ''jfit_db.yaml'']
   \<and> shlex_split (example_sys []) ''docker-compose -p g  -f jfit_re.yaml -f jfit_db.yaml up -d''
       = Some [''docker-compose'', ''-p'', ''g'', ''-f'', ''jfit_re.yaml'', ''-f'', ''jfit_db.yaml'', ''up'', ''-d'']
   \<and> invocations (trace (snd (start (example_sys []) \<lparr>args_group_name = ''g'', args_service = None\<rparr> example_group)))
       = [''docker-compose -p g  -f jfit_re.yaml -f jfit_db.yaml up -d'']
   \<and> shlex_split (example_sys []) ''docker-compose -p g  -f jfit_re.yaml -f jfit_db.yaml start re''
       = Some [''docker-compose'', ''-p'', ''g'', ''-f'', ''jfit_re.yaml'', ''-f'', ''jfit_db.yaml'', ''start'', ''re'']
   \<and> invocations (trace (snd (start (example_sys []) \<lparr>args_group_name = ''g'', args_service = Some ''re''\<rparr> example_group)))
       = [''docker-compose -p g  -f jfit_re.yaml -f jfit_db.yaml start re'']"
proof -
  have h1: "isdir (fs example_group) (get_group_dir_path (example_sys []) ''g'')"
    by code_simp
  have h2: "filter (endswith ''.yaml'') (children (fs example_group) (get_group_dir_path (example_sys []) ''g''))
       = [''jfit_re.yaml'', ''jfit_db.yaml'']"
    by code_simp
  have h3: "[''jfit_re.yaml'', ''jfit_db.yaml''] \<noteq> []"
    by simp
  have u: "''docker-compose -p g  -f jfit_re.yaml -f jfit_db.yaml up -d''
             = ''docker-compose -p '' @ ''g'' @ '' ''
               @ concat (map (\<lambda>d. '' -f '' @ d) [''jfit_re.yaml'', ''jfit_db.yaml'']) @ '' up -d''"
    by simp
  have c: "''docker-compose -p g  -f jfit_re.yaml -f jfit_db.yaml start re''
             = ''docker-compose -p '' @ ''g'' @ '' ''
               @ concat (map (\<lambda>d. '' -f '' @ d) [''jfit_re.yaml'', ''jfit_db.yaml'']) @ '' start '' @ ''re''"
    by simp
  have s1: "shlex_split (example_sys []) ''docker-compose -p g  -f jfit_re.yaml -f jfit_db.yaml up -d''
       = Some [''docker-compose'', ''-p'', ''g'', ''-f'', ''jfit_re.yaml'', ''-f'', ''jfit_db.yaml'', ''up'', ''-d'']"
    by code_simp
  have s2: "shlex_split (example_sys []) ''docker-compose -p g  -f jfit_re.yaml -f jfit_db.yaml start re''
       = Some [''docker-compose'', ''-p'', ''g'', ''-f'', ''jfit_re.yaml'', ''-f'', ''jfit_db.yaml'', ''start'', ''re'']"
    by code_simp
  have t: "trace example_group = []"
    by (simp add: example_group_def)
  note r = start_builds_compose_command [OF h1 h2 h3 u c]
  from conjunct1 [OF r] s1 t
  have a: "invocations (trace (snd (start (example_sys []) \<lparr>args_group_name = ''g'', args_service = None\<rparr> example_group)))
       = [''docker-compose -p g  -f jfit_re.yaml -f jfit_db.yaml up -d'']"
    by simp
  from conjunct2 [OF r] s2 t
  have b: "invocations (trace (snd (start (example_sys []) \<lparr>args_group_name = ''g'', args_service = Some ''re''\<rparr> example_group)))
       = [''docker-compose -p g  -f jfit_re.yaml -f jfit_db.yaml start re'']"
    by simp
  from h1 h2 s1 a s2 b show ?thesis
    by blast
qed

text \<open>
  C6. In the typed map of a manifest, the value of a key that ends in \<^verbatim>\<open>_LIST\<close> is the list
  obtained by dropping the first and the last character of the raw value and splitting the rest
  at the commas; the value of a key without that suffix is never a list; and for items without
  commas, \<^verbatim>\<open>[\<close>items joined by commas\<^verbatim>\<open>]\<close> parses back to the items in their order, so
  \<^verbatim>\<open>[a,b,c]\<close> gives \<^verbatim>\<open>a\<close>, \<^verbatim>\<open>b\<close>, \<^verbatim>\<open>c\<close>.
\<close>

theorem list_suffix_values_parsed:
  "(endswith ''_LIST'' k \<longrightarrow> map_of raw k = Some v \<longrightarrow>
      map_of (build_env_dict S raw) k = Some (EList (split_on CHR '','' (butlast (tl v)))))
   \<and> (\<not> endswith ''_LIST'' k \<longrightarrow> map_of (build_env_dict S raw) k \<noteq> Some (EList xs))
   \<and> (ys \<noteq> [] \<longrightarrow> (\<forall>y\<in>set ys. CHR '','' \<notin> set y) \<longrightarrow>
        split_on CHR '','' (butlast (tl (''['' @ py_join '','' ys @ '']''))) = ys)"
proof (intro conjI impI)
  assume "endswith ''_LIST'' k" and "map_of raw k = Some v"
  moreover have "\<not> endswith ''_LIST'' ''JFIT_ETC_PATH''" "\<not> endswith ''_LIST'' ''JFIT_OUTPUT_PATH''"
    by (simp_all add: endswith_def)
  ultimately show "map_of (build_env_dict S raw) k = Some (EList (split_on CHR '','' (butlast (tl v))))"
    by (auto simp: build_env_dict_def update_conv' map_of_parse_lists)
next
  assume "\<not> endswith ''_LIST'' k"
  then show "map_of (build_env_dict S raw) k \<noteq> Some (EList xs)"
    by (auto simp: build_env_dict_def update_conv' map_of_parse_lists)
next
  assume "ys \<noteq> []" and "\<forall>y\<in>set ys. CHR '','' \<notin> set y"
  then show "split_on CHR '','' (butlast (tl (''['' @ py_join '','' ys @ '']''))) = ys"
    using split_on_py_join[of ys "CHR '',''"] by (simp add: strip_brackets)
qed

theorem list_suffix_values_parsed_witness:
  "env_dict_of (split_ws ''RULE_ENGINE=re HOSTS_LIST=[a,b,c]'') [] = Inr [(''RULE_ENGINE'', ''re''), (''HOSTS_LIST'', ''[a,b,c]'')]
   \<and> endswith ''_LIST'' ''HOSTS_LIST''
   \<and> map_of (build_env_dict (example_sys []) [(''RULE_ENGINE'', ''re''), (''HOSTS_LIST'', ''[a,b,c]'')]) ''HOSTS_LIST''
        = Some (EList [''a'', ''b'', ''c''])
   \<and> \<not> endswith ''_LIST'' ''RULE_ENGINE''
   \<and> map_of (build_env_dict (example_sys []) [(''RULE_ENGINE'', ''re''), (''HOSTS_LIST'', ''[a,b,c]'')]) ''RULE_ENGINE''
        \<noteq> Some (EList [''re''])
   \<and> split_on CHR '','' (butlast (tl (''['' @ py_join '','' [''a'', ''b'', ''c''] @ '']''))) = [''a'', ''b'', ''c'']"
proof -
  have e: "env_dict_of (split_ws ''RULE_ENGINE=re HOSTS_LIST=[a,b,c]'') [] = Inr [(''RULE_ENGINE'', ''re''), (''HOSTS_LIST'', ''[a,b,c]'')]"
    by code_simp
  have h1: "endswith ''_LIST'' ''HOSTS_LIST''" by code_simp
  have h2: "\<not> endswith ''_LIST'' ''RULE_ENGINE''" by code_simp
  have h3: "map_of [(''RULE_ENGINE'', ''re''), (''HOSTS_LIST'', ''[a,b,c]'')] ''HOSTS_LIST'' = Some ''[a,b,c]''"
    by simp
  have h4: "[''a'', ''b'', ''c''] \<noteq> [] \<and> (\<forall>y\<in>set [''a'', ''b'', ''c'']. CHR '','' \<notin> set y)" by simp
  have s: "split_on CHR '','' (butlast (tl ''[a,b,c]'')) = [''a'', ''b'', ''c'']" by simp
  note t1 = list_suffix_values_parsed [of "''HOSTS_LIST''" "[(''RULE_ENGINE'', ''re''), (''HOSTS_LIST'', ''[a,b,c]'')]" "''[a,b,c]''"
               "example_sys []" "[''re'']" "[''a'', ''b'', ''c'']"]
  note t2 = list_suffix_values_parsed [of "''RULE_ENGINE''" "[(''RULE_ENGINE'', ''re''), (''HOSTS_LIST'', ''[a,b,c]'')]" "''re''"
               "example_sys []" "[''re'']" "[''a'', ''b'', ''c'']"]
  from t1 h1 h3 s have a: "map_of (build_env_dict (example_sys []) [(''RULE_ENGINE'', ''re''), (''HOSTS_LIST'', ''[a,b,c]'')]) ''HOSTS_LIST''
        = Some (EList [''a'', ''b'', ''c''])" by simp
  from t2 h2 have b: "map_of (build_env_dict (example_sys []) [(''RULE_ENGINE'', ''re''), (''HOSTS_LIST'', ''[a,b,c]'')]) ''RULE_ENGINE''
        \<noteq> Some (EList [''re''])" by blast
  from t1 h4 have c: "split_on CHR '','' (butlast (tl (''['' @ py_join '','' [''a'', ''b'', ''c''] @ '']''))) = [''a'', ''b'', ''c'']"
    by blast
  from e h1 a h2 b c show ?thesis by blast
qed








text \<open>
  C5 does not hold of \<open>remove\<close>. In a group directory that exists and has no document,
  \<open>start\<close> returns 1 and runs nothing, but \<open>remove\<close> formats the 1 that \<open>_get_compose_files\<close>
  returned into the command line and runs \<^verbatim>\<open>docker-compose -p g0 1 rm --force --stop -v\<close>. For a
  group directory that does not exist, \<open>remove\<close> prints nothing and \<^verbatim>\<open>os.chdir\<close> raises
  \<^verbatim>\<open>OSError\<close>.
\<close>

theorem remove_skips_precondition_check:
  "isdir (fs (installed unassembled)) (get_group_dir_path (example_sys example_tars) ''g0'')
   \<and> filter (endswith ''.yaml'')
         (children (fs (installed unassembled)) (get_group_dir_path (example_sys example_tars) ''g0'')) = []
   \<and> fst (start (example_sys example_tars) \<lparr>args_group_name = ''g0'', args_service = None\<rparr> (installed unassembled))
       = Inr 1
   \<and> invocations (trace (snd (start (example_sys example_tars) \<lparr>args_group_name = ''g0'', args_service = None\<rparr>
                                 (installed unassembled)))) = []
   \<and> invocations (trace (snd (remove (example_sys example_tars) \<lparr>args_group_name = ''g0'', args_service = None\<rparr>
                                 (installed unassembled))))
       = [''docker-compose -p g0 1 rm --force --stop -v'']
   \<and> remove (example_sys example_tars) \<lparr>args_group_name = ''nogroup'', args_service = None\<rparr> (installed unassembled)
       = (Inl OSError, installed unassembled)"
  by code_simp

text \<open>
  C2 does not hold of the code: the template is chosen by comparing the name resolved from the
  image tag with \<^verbatim>\<open>TRAINING_ENGINE\<close>, not the role key. For the manifest
  \<^verbatim>\<open>TRAINING_ENGINE=te\<close>, whose image is tagged \<^verbatim>\<open>jfit_te:1.0\<close>, the document is rendered from
  the generic \<^verbatim>\<open>jfit_te.yaml.j2\<close> although \<^verbatim>\<open>jfit_te_training.yaml.j2\<close> is there.
\<close>

theorem training_engine_rendered_from_generic_template:
  "map_of (fs (installed training)) ''/opt/jfit/compose_files/jfit_te_training.yaml.j2''
     = Some (File ''services: te training'')
   \<and> fst (create_compose_file (example_sys example_tars) (group_path ''g2'')
             (COMPOSE_SNIPPET_DIR (example_sys example_tars)) (installed training)) = Inr 0
   \<and> map_of (fs (snd (create_compose_file (example_sys example_tars) (group_path ''g2'')
                        (COMPOSE_SNIPPET_DIR (example_sys example_tars)) (installed training))))
            ''/opt/jfit/etc/core_output/g2/jfit_te.yaml''
       = Some (File ''services: te'')"
  by code_simp

text \<open>
  C8 does not hold of the code: for a group directory without \<^verbatim>\<open>source.env\<close> the message is
  printed, but the function goes on to open the file and \<^verbatim>\<open>IOError\<close> is raised instead of a
  result being returned; in a batch the exception also ends the assembly of the groups that
  follow (the group \<open>single\<close> alone is assembled with result 0).
\<close>

theorem missing_manifest_raises:
  "create_compose_file (example_sys example_tars) (group_path ''g1'')
      (COMPOSE_SNIPPET_DIR (example_sys example_tars)) (installed no_manifest)
     = (Inl IOError,
        (installed no_manifest)
          \<lparr>trace := [Print RED ''Unable to find file: /opt/jfit/etc/core_output/g1/source.env'']\<rparr>)
   \<and> fst (assemble_groups (example_sys example_tars) (installed (no_manifest @ single))) = Inl IOError
   \<and> map_of (fs (snd (assemble_groups (example_sys example_tars) (installed (no_manifest @ single)))))
            ''/opt/jfit/etc/core_output/g4/jfit_re.yaml'' = None
   \<and> fst (assemble_groups (example_sys example_tars) (installed single)) = Inr 0"
  by code_simp




text \<open>
  C9. In any run of \<open>parse\<close>, observed for any number of polls: if a remove command
  (\<^verbatim>\<open>docker rm -f\<close>) is among the events of the run, then among the events before the first
  remove command there is a status poll (\<^verbatim>\<open>docker inspect\<close>) that exited with status 0 and whose
  stripped output is \<^verbatim>\<open>exited\<close>. And the loop has no bound: when every poll answers with a status
  other than \<^verbatim>\<open>exited\<close> (and the status command tokenises), then for every \<open>n\<close> the loop is
  still running after \<open>n\<close> polls, its events being \<open>n\<close> rounds of command, poll and sleep of
  five seconds.
\<close>

theorem helper_removed_only_after_exited:
  "(parse S n args w = (r, w') \<longrightarrow>
      list_ex is_remove (drop (length (trace w)) (trace w')) \<longrightarrow>
      list_ex is_exited_poll (takeWhile (\<lambda>e. \<not> is_remove e) (drop (length (trace w)) (trace w'))))
   \<and> (shlex_split S sc \<noteq> None \<longrightarrow>
      (\<forall>w0. fst (fst (run S sc w0)) = 0 \<and> strip (snd (fst (run S sc w0))) \<noteq> ''exited'') \<longrightarrow>
      (\<exists>outs. length outs = n \<and> fst (wait_exited S sc n w) = None
             \<and> trace (snd (wait_exited S sc n w)) = trace w @ concat (map (poll_round sc) outs)))"
proof (intro conjI impI)
  assume "shlex_split S sc \<noteq> None"
    "\<forall>w0. fst (fst (run S sc w0)) = 0 \<and> strip (snd (fst (run S sc w0))) \<noteq> ''exited''"
  then show "\<exists>outs. length outs = n \<and> fst (wait_exited S sc n w) = None
             \<and> trace (snd (wait_exited S sc n w)) = trace w @ concat (map (poll_round sc) outs)"
    by (rule wait_exited_never)
next
  let ?new = "drop (length (trace w)) (trace w')"
  assume p: "parse S n args w = (r, w')" and rm: "list_ex is_remove ?new"
  obtain rl w0 where l: "locate_input S args w = (rl, w0)"
    by (cases "locate_input S args w")
  then have w0: "w0 = w" by (rule locate_input_world)
  show "list_ex is_exited_poll (takeWhile (\<lambda>e. \<not> is_remove e) ?new)"
  proof (cases "\<exists>ifp idir. rl = Inr (None, ifp, idir)")
    case False
    with p l w0 have "?new = [] \<or> (\<exists>err. ?new = [Print RED err])"
      by (auto simp: parse_def bnd_def print_def ret_def split: sum.splits option.splits)
    with rm show ?thesis by auto
  next
    case True
    then obtain ifp idir where rl: "rl = Inr (None, ifp, idir)" by blast
    obtain rr w1 where rs: "reset_output_folder S w = (rr, w1)"
      by (cases "reset_output_folder S w")
    with reset_output_folder_trace[of S w] have t1: "trace w1 = trace w" by simp
    from p l w0 rl rs have pl: "(case rr of Inl e \<Rightarrow> (Some (Inl e), w1)
                                 | Inr u \<Rightarrow> parse_container S n args ifp idir w1) = (r, w')"
      by (simp add: parse_def parse_located_def split: sum.splits)
    show ?thesis
    proof (cases rr)
      case (Inl e)
      with pl t1 rm show ?thesis by auto
    next
      case (Inr u)
      let ?core = "path_join (DOCKER_IMAGE_DIR S) (''jfit_core'' @ ''.tar.gz'')"
      obtain rt w2 where gt: "get_container_tags S ?core w1 = (rt, w2)"
        by (cases "get_container_tags S ?core w1")
      from tags_events[OF gt] t1 obtain a where a: "trace w2 = trace w @ a" "\<not> list_ex is_remove a"
        by auto
      show ?thesis
      proof (cases rt)
        case (Inl e)
        with pl Inr gt a rm show ?thesis
          by (auto simp: parse_container_def)
      next
        case tags: (Inr tags)
        let ?dc = "docker_parse_command S ifp idir tags (args_device_group args)"
        obtain r2 w3 where rp: "run_parse_container S n ?dc w2 = (r2, w3)"
          by (cases "run_parse_container S n ?dc w2")
        from run_parse_container_events[OF rp] obtain b where
          b: "trace w3 = trace w2 @ b"
             "list_ex is_remove b \<longrightarrow> list_ex is_exited_poll (takeWhile (\<lambda>e. \<not> is_remove e) b)"
             "r2 = Some (Inr 0) \<longrightarrow> list_ex is_remove b"
          by auto
        show ?thesis
        proof (cases "r2 = Some (Inr 0)")
          case False
          with pl Inr gt tags rp have "w' = w3"
            by (auto simp: parse_container_def split: option.splits sum.splits if_splits)
          with a b have "?new = a @ b" by simp
          with a b rm show ?thesis
            by (auto simp: list_ex_iff takeWhile_append)
        next
          case True
          obtain r4 w4 where ag: "assemble_groups S w3 = (r4, w4)"
            by (cases "assemble_groups S w3")
          with ext_assemble_groups[of w3 S] obtain c where c: "trace w4 = trace w3 @ c"
            by (auto simp: ext_iff)
          from pl Inr gt tags rp True ag have "w' = w4"
            by (auto simp: parse_container_def)
          with a b c have "?new = a @ b @ c" by simp
          with a b True show ?thesis
            by (auto simp: list_ex_iff takeWhile_append)
        qed
      qed
    qed
  qed
qed

theorem helper_removed_only_after_exited_witness:
  "fst (parse (example_sys helper_exits) 5 example_parse_args (installed assembled)) = Some (Inr 0)
   \<and> list_ex is_remove (drop (length (trace (installed assembled))) (trace (snd (parse (example_sys helper_exits) 5 example_parse_args (installed assembled)))))
   \<and> list_ex is_exited_poll (takeWhile (\<lambda>e. \<not> is_remove e) (drop (length (trace (installed assembled))) (trace (snd (parse (example_sys helper_exits) 5 example_parse_args (installed assembled))))))
   \<and> invocations (trace (snd (parse (example_sys helper_exits) 5 example_parse_args (installed assembled))))
       = [tar_command ''jfit_core'', helper_command, status_command ''c1'', status_command ''c1'',
          status_command ''c1'', remove_command ''c1'', tar_command ''jfit_re'']
   \<and> shlex_split (example_sys helper_runs_on) (status_command ''c1'')
       = Some [''docker'', ''inspect'', ''--format={{.State.Status}}'', ''c1'']
   \<and> (\<forall>w0. fst (fst (run (example_sys helper_runs_on) (status_command ''c1'') w0)) = 0
            \<and> strip (snd (fst (run (example_sys helper_runs_on) (status_command ''c1'') w0))) \<noteq> ''exited'')
   \<and> fst (wait_exited (example_sys helper_runs_on) (status_command ''c1'') 3 (installed [])) = None
   \<and> fst (parse (example_sys helper_runs_on) 3 example_parse_args (installed assembled)) = None
   \<and> invocations (trace (snd (parse (example_sys helper_runs_on) 3 example_parse_args (installed assembled))))
       = [tar_command ''jfit_core'', helper_command, status_command ''c1'', status_command ''c1'',
          status_command ''c1'']"
proof -
  have f: "fst (parse (example_sys helper_exits) 5 example_parse_args (installed assembled)) = Some (Inr 0)"
    by code_simp
  have c: "parse (example_sys helper_exits) 5 example_parse_args (installed assembled) = (fst (parse (example_sys helper_exits) 5 example_parse_args (installed assembled)), snd (parse (example_sys helper_exits) 5 example_parse_args (installed assembled)))"
    by simp
  have rm: "list_ex is_remove (drop (length (trace (installed assembled))) (trace (snd (parse (example_sys helper_exits) 5 example_parse_args (installed assembled)))))"
    by code_simp
  have i: "invocations (trace (snd (parse (example_sys helper_exits) 5 example_parse_args (installed assembled))))
       = [tar_command ''jfit_core'', helper_command, status_command ''c1'', status_command ''c1'',
          status_command ''c1'', remove_command ''c1'', tar_command ''jfit_re'']"
    by code_simp
  have tbl: "map_of helper_runs_on (status_command ''c1'') = Some [((0, ''running'' @ [CHR 0x0A]), [])]"
    by code_simp
  have tk: "shlex_split (example_sys helper_runs_on) (status_command ''c1'')
       = Some [''docker'', ''inspect'', ''--format={{.State.Status}}'', ''c1'']"
    by code_simp
  have never: "\<forall>w0. fst (fst (run (example_sys helper_runs_on) (status_command ''c1'') w0)) = 0
            \<and> strip (snd (fst (run (example_sys helper_runs_on) (status_command ''c1'') w0))) \<noteq> ''exited''"
    by (simp add: example_sys_def scripted_def tbl strip_def isspace_def)
  note t = helper_removed_only_after_exited
    [where S = "(example_sys helper_exits)" and n = 5 and args = example_parse_args and w = "installed assembled"
       and r = "fst (parse (example_sys helper_exits) 5 example_parse_args (installed assembled))" and w' = "snd (parse (example_sys helper_exits) 5 example_parse_args (installed assembled))"]
  from conjunct1 [OF t] c rm
  have p: "list_ex is_exited_poll (takeWhile (\<lambda>e. \<not> is_remove e) (drop (length (trace (installed assembled))) (trace (snd (parse (example_sys helper_exits) 5 example_parse_args (installed assembled))))))"
    by blast
  from conjunct2 [OF helper_removed_only_after_exited
    [where S = "(example_sys helper_runs_on)" and sc = "status_command ''c1''" and n = 3 and w = "installed []"]] never tk
  have n3: "fst (wait_exited (example_sys helper_runs_on) (status_command ''c1'') 3 (installed [])) = None"
    by blast
  have q: "fst (parse (example_sys helper_runs_on) 3 example_parse_args (installed assembled)) = None"
    by code_simp
  have j: "invocations (trace (snd (parse (example_sys helper_runs_on) 3 example_parse_args (installed assembled))))
       = [tar_command ''jfit_core'', helper_command, status_command ''c1'', status_command ''c1'',
          status_command ''c1'']"
    by code_simp
  from f rm p i tk never n3 q j show ?thesis
    by blast
qed

text \<open>
  C10, as the code has it. When the input file and the input directory are located (no error
  before line 392) and the output folder exists as a directory of a well-formed tree (no ancestor
  of it is a regular file), \<open>parse\<close> first removes the output folder with everything below it and
  makes it again, and only then resolves the tag of the helper image, launches the container and
  assembles the groups: all of that runs in a world where the output folder is a directory,
  no path below it exists, and nothing has been printed or run yet.
\<close>

theorem parse_resets_output_folder:
  "locate_input S args w = (Inr (None, ifp, idir), w) \<longrightarrow>
   isdir (fs w) (GROUP_DIR S) \<longrightarrow>
   \<not> list_ex (isfile (fs w)) (ancestors (GROUP_DIR S)) \<longrightarrow>
     fst (reset_output_folder S w) = Inr ()
     \<and> parse S n args w = parse_container S n args ifp idir (snd (reset_output_folder S w))
     \<and> isdir (fs (snd (reset_output_folder S w))) (GROUP_DIR S)
     \<and> (\<forall>p. below (GROUP_DIR S) p \<longrightarrow> map_of (fs (snd (reset_output_folder S w))) p = None)
     \<and> trace (snd (reset_output_folder S w)) = trace w"
proof (intro impI)
  let ?d = "GROUP_DIR S"
  let ?keep = "\<lambda>p. p \<noteq> ?d \<and> \<not> below ?d p"
  let ?f1 = "filter (\<lambda>e. ?keep (fst e)) (fs w)"
  let ?w1 = "w\<lparr>fs := ?f1\<rparr>"
  let ?f2 = "?f1 @ map (\<lambda>a. (a, Dir)) (filter (\<lambda>a. map_of ?f1 a = None) (ancestors ?d)) @ [(?d, Dir)]"
  assume loc: "locate_input S args w = (Inr (None, ifp, idir), w)"
     and isd: "isdir (fs w) ?d"
     and anc: "\<not> list_ex (isfile (fs w)) (ancestors ?d)"
  have gone: "map_of ?f1 ?d = None"
    by (rule map_of_filter_None) simp
  have anc1: "\<not> list_ex (isfile ?f1) (ancestors ?d)"
  proof -
    have "\<And>a. a \<in> set (ancestors ?d) \<Longrightarrow> \<not> isfile ?f1 a"
    proof -
      fix a assume a: "a \<in> set (ancestors ?d)"
      show "\<not> isfile ?f1 a"
      proof (cases "?keep a")
        case True
        then have "map_of ?f1 a = map_of (fs w) a" by (rule map_of_filter_keep)
        with anc a show ?thesis by (auto simp: list_ex_iff isfile_def)
      next
        case False
        then have "map_of ?f1 a = None" by (rule map_of_filter_None)
        then show ?thesis by (simp add: isfile_def)
      qed
    qed
    then show ?thesis by (auto simp: list_ex_iff)
  qed
  from isd have rm: "rmtree ?d w = (Inr (), ?w1)"
    by (simp add: rmtree_def Let_def)
  from gone anc1 have mk: "makedirs ?d ?w1 = (Inr (), ?w1\<lparr>fs := ?f2\<rparr>)"
    by (simp add: makedirs_def Let_def)
  from isd rm mk have reset: "reset_output_folder S w = (Inr (), w\<lparr>fs := ?f2\<rparr>)"
    by (simp add: reset_output_folder_def Let_def bnd_def os_isdir_def)
  have dir: "isdir ?f2 ?d"
  proof -
    have "map_of ?f2 ?d = Some Dir"
      using gone by (simp add: map_add_def map_of_dirs)
    then show ?thesis by (simp add: isdir_def)
  qed
  have empty: "\<forall>p. below ?d p \<longrightarrow> map_of ?f2 p = None"
  proof (intro allI impI)
    fix p assume b: "below ?d p"
    then have "map_of ?f1 p = None" by (intro map_of_filter_None) simp
    moreover from b have "p \<notin> set (ancestors ?d)" using below_not_ancestor by blast
    moreover from b have "p \<noteq> ?d" using below_irrefl by blast
    ultimately show "map_of ?f2 p = None"
      by (simp add: map_add_def map_of_dirs)
  qed
  from loc reset dir empty
  show "fst (reset_output_folder S w) = Inr ()
     \<and> parse S n args w = parse_container S n args ifp idir (snd (reset_output_folder S w))
     \<and> isdir (fs (snd (reset_output_folder S w))) (GROUP_DIR S)
     \<and> (\<forall>p. below (GROUP_DIR S) p \<longrightarrow> map_of (fs (snd (reset_output_folder S w))) p = None)
     \<and> trace (snd (reset_output_folder S w)) = trace w"
    by (simp add: parse_def parse_located_def)
qed

theorem parse_resets_output_folder_witness:
  "locate_input (example_sys helper_exits) example_parse_args (installed assembled) = (Inr (None, ''/opt/jfit/model.json'', ''/opt/jfit/input''), (installed assembled))
   \<and> isdir (fs (installed assembled)) (GROUP_DIR (example_sys helper_exits))
   \<and> \<not> list_ex (isfile (fs (installed assembled))) (ancestors (GROUP_DIR (example_sys helper_exits)))
   \<and> below (GROUP_DIR (example_sys helper_exits)) ''/opt/jfit/etc/core_output/old/jfit_re.yaml''
   \<and> map_of (fs (installed assembled)) ''/opt/jfit/etc/core_output/old/jfit_re.yaml'' = Some (File ''services: re'')
   \<and> parse (example_sys helper_exits) 5 example_parse_args (installed assembled)
       = parse_container (example_sys helper_exits) 5 example_parse_args ''/opt/jfit/model.json'' ''/opt/jfit/input'' (snd (reset_output_folder (example_sys helper_exits) (installed assembled)))
   \<and> map_of (fs (snd (reset_output_folder (example_sys helper_exits) (installed assembled)))) ''/opt/jfit/etc/core_output/old/jfit_re.yaml'' = None
   \<and> fst (parse (example_sys helper_exits) 5 example_parse_args (installed assembled)) = Some (Inr 0)
   \<and> map_of (fs (snd (parse (example_sys helper_exits) 5 example_parse_args (installed assembled)))) ''/opt/jfit/etc/core_output/old/jfit_re.yaml'' = None
   \<and> map_of (fs (snd (parse (example_sys helper_exits) 5 example_parse_args (installed assembled)))) ''/opt/jfit/etc/core_output/dg/jfit_re.yaml''
       = Some (File ''services: re'')"
proof -
  have l: "locate_input (example_sys helper_exits) example_parse_args (installed assembled) = (Inr (None, ''/opt/jfit/model.json'', ''/opt/jfit/input''), (installed assembled))"
    by code_simp
  have d: "isdir (fs (installed assembled)) (GROUP_DIR (example_sys helper_exits))"
    by code_simp
  have a: "\<not> list_ex (isfile (fs (installed assembled))) (ancestors (GROUP_DIR (example_sys helper_exits)))"
    by code_simp
  have b: "below (GROUP_DIR (example_sys helper_exits)) ''/opt/jfit/etc/core_output/old/jfit_re.yaml''"
    by code_simp
  have o: "map_of (fs (installed assembled)) ''/opt/jfit/etc/core_output/old/jfit_re.yaml'' = Some (File ''services: re'')"
    by code_simp
  from parse_resets_output_folder [where n = 5] l d a
  have t: "parse (example_sys helper_exits) 5 example_parse_args (installed assembled)
             = parse_container (example_sys helper_exits) 5 example_parse_args ''/opt/jfit/model.json'' ''/opt/jfit/input'' (snd (reset_output_folder (example_sys helper_exits) (installed assembled)))
           \<and> (\<forall>p. below (GROUP_DIR (example_sys helper_exits)) p \<longrightarrow> map_of (fs (snd (reset_output_folder (example_sys helper_exits) (installed assembled)))) p = None)"
    by blast
  with b have g: "map_of (fs (snd (reset_output_folder (example_sys helper_exits) (installed assembled)))) ''/opt/jfit/etc/core_output/old/jfit_re.yaml'' = None"
    by blast
  have f: "fst (parse (example_sys helper_exits) 5 example_parse_args (installed assembled)) = Some (Inr 0)"
    by code_simp
  have n: "map_of (fs (snd (parse (example_sys helper_exits) 5 example_parse_args (installed assembled)))) ''/opt/jfit/etc/core_output/old/jfit_re.yaml'' = None"
    by code_simp
  have m: "map_of (fs (snd (parse (example_sys helper_exits) 5 example_parse_args (installed assembled)))) ''/opt/jfit/etc/core_output/dg/jfit_re.yaml''
       = Some (File ''services: re'')"
    by code_simp
  from l d a b o t g f n m show ?thesis
    by blast
qed

text \<open>
  C10 as stated fails for an invocation that is refused at the start: with an input file that
  cannot be located, \<open>parse\<close> prints the error and returns 1 before line 392, and the group
  directory of the earlier run and its document are untouched.
\<close>

theorem parse_without_input_keeps_output:
  "parse (example_sys helper_exits) 5 (example_parse_args\<lparr>args_input_file_path := ''nofile.json''\<rparr>)
      (installed assembled)
     = (Some (Inr 1), (installed assembled)\<lparr>trace := [Print RED ''Unable to locate file nofile.json'']\<rparr>)
   \<and> below (GROUP_DIR (example_sys helper_exits)) ''/opt/jfit/etc/core_output/old/jfit_re.yaml''
   \<and> map_of (fs (installed assembled)) ''/opt/jfit/etc/core_output/old/jfit_re.yaml''
       = Some (File ''services: re'')"
  by code_simp

end
